theory Spec2Isabelle
  imports Complex_Main
begin

section \<open>Python values, tags and exceptions\<close>

text \<open>
  The library \<^verbatim>\<open>djixt2tiff.py\<close> works on the tag values that the TIFF reader hands
  over, which Python types as \<^verbatim>\<open>Any\<close>. They are embedded as one datatype with a
  constructor per run-time shape the code distinguishes: integers, text, byte
  strings, tuples, nested groups (dictionaries with text keys, in insertion
  order), enumeration members (by member name), and the two structured values
  the library itself creates (coordinate and timestamp). The tag reader
  delivers a rational number as integers, numerator and denominator, so the
  only floats are those the decoder computes; a tag whose value is itself a
  float is outside the embedding.

  A Python \<^verbatim>\<open>float\<close> is embedded as the real number it denotes, the sign of zero
  not represented. The rounding of every floating-point operation is a
  parameter \<open>rnd\<close> of the functions that compute with floats (rounding to the
  precision of the format, with no bound on the exponent), so that each theorem
  holds for the rounding of the machine as well as for exact arithmetic.
  \<open>float_max\<close> is the largest finite double. A quotient of integers beyond it is
  the interpreter's \<^verbatim>\<open>OverflowError\<close>; a sum beyond it stands for the infinity of
  its sign, which the comparisons of the decoder treat like the sum.
\<close>

record WGS84Coords =
  lat :: real
  lon :: real
  alt :: real

record datetime =
  year :: int
  month :: int
  day :: int
  hour :: int
  minute :: int
  second :: int
  microsecond :: int

datatype pyval =
    VNone
  | VInt int
  | VStr string
  | VBytes string
  | VTuple "pyval list"
  | VDict "(string \<times> pyval) list"
  | VEnum string
  | VCoords WGS84Coords
  | VDateTime datetime

text \<open>The messages of the \<^verbatim>\<open>RuntimeError\<close>s the library raises, with the value each one shows.\<close>

datatype runtime_msg =
    GPSMapDatum pyval
  | GPSLatitude pyval
  | GPSLatitudeRef pyval
  | GPSLongitude pyval
  | GPSLongitudeRef pyval
  | GPSAltitudeRef pyval
  | NotDJIXT2 pyval pyval
  | FailedToParseXMP pyval
  | FailedToParseTagName string

text \<open>
  Exceptions are values. \<open>KeyError k\<close> is the interpreter's error for a missing
  key; \<open>KeyExists k old new\<close> is the \<^verbatim>\<open>KeyError\<close> that \<^verbatim>\<open>pageprops\<close> raises itself,
  whose message shows the key, the value already stored and the value that was
  to be stored.
\<close>

datatype pyerr =
    ValueError
  | TypeError
  | AttributeError
  | IndexError
  | ZeroDivisionError
  | OverflowError
  | UnicodeDecodeError
  | ParseError
  | KeyError string
  | KeyExists string pyval pyval
  | RuntimeError runtime_msg

datatype TiffTag = TiffTag (tag_name: string) (tag_value: pyval)

definition bindE :: "pyerr + 'a \<Rightarrow> ('a \<Rightarrow> pyerr + 'b) \<Rightarrow> pyerr + 'b" where
  "bindE r f = (case r of Inl e \<Rightarrow> Inl e | Inr x \<Rightarrow> f x)"

subsection \<open>The interpreter's operations on values\<close>

text \<open>\<^verbatim>\<open>v[k]\<close> with a text key: defined on dictionaries, a \<^verbatim>\<open>TypeError\<close> on every other shape.\<close>

fun getitem :: "pyval \<Rightarrow> string \<Rightarrow> pyerr + pyval" where
  "getitem (VDict d) k = (case map_of d k of None \<Rightarrow> Inl (KeyError k) | Some v \<Rightarrow> Inr v)"
| "getitem _ k = Inl TypeError"

text \<open>\<^verbatim>\<open>len(v)\<close>.\<close>

fun py_len :: "pyval \<Rightarrow> pyerr + nat" where
  "py_len (VTuple xs) = Inr (length xs)"
| "py_len (VStr s) = Inr (length s)"
| "py_len (VBytes s) = Inr (length s)"
| "py_len (VDict d) = Inr (length d)"
| "py_len _ = Inl TypeError"

text \<open>
  \<^verbatim>\<open>v[i]\<close> with a non-negative integer literal \<open>i\<close>: an element of a tuple, a
  one-character text, the integer value of a byte; out of range is an
  \<^verbatim>\<open>IndexError\<close>. A dictionary has text keys only, so the integer is a missing key.
\<close>

fun index :: "pyval \<Rightarrow> nat \<Rightarrow> pyerr + pyval" where
  "index (VTuple xs) i = (if i < length xs then Inr (xs ! i) else Inl IndexError)"
| "index (VStr s) i = (if i < length s then Inr (VStr [s ! i]) else Inl IndexError)"
| "index (VBytes s) i = (if i < length s then Inr (VInt (of_char (s ! i))) else Inl IndexError)"
| "index (VDict d) i = Inl (KeyError (replicate i CHR ''1''))"
| "index _ i = Inl TypeError"

definition float_max :: real where
  "float_max = 2 ^ 1024 - 2 ^ 971"

text \<open>
  True division \<^verbatim>\<open>a / b\<close> of integers: a zero divisor is a \<^verbatim>\<open>ZeroDivisionError\<close>,
  a quotient that rounds beyond the largest float an \<^verbatim>\<open>OverflowError\<close>, and the
  result is the rounded quotient otherwise. Every other shape of operand that a
  tag value can have is a \<^verbatim>\<open>TypeError\<close>.
\<close>

fun truediv :: "(real \<Rightarrow> real) \<Rightarrow> pyval \<Rightarrow> pyval \<Rightarrow> pyerr + real" where
  "truediv rnd (VInt a) (VInt b) =
     (if b = 0 then Inl ZeroDivisionError
      else if \<bar>rnd (of_int a / of_int b)\<bar> > float_max then Inl OverflowError
      else Inr (rnd (of_int a / of_int b)))"
| "truediv rnd _ _ = Inl TypeError"

text \<open>\<^verbatim>\<open>v == n\<close> for an integer literal \<open>n\<close>.\<close>

fun eq_int :: "pyval \<Rightarrow> int \<Rightarrow> bool" where
  "eq_int (VInt a) n = (a = n)"
| "eq_int _ n = False"

section \<open>The GPS decoder\<close>

text \<open>
  \<^verbatim>\<open>y[0]/y[1] + (y[2]/y[3])/60.0 + (y[4]/y[5])/3600.0\<close>, evaluated left to right as
  Python does, every quotient and sum rounded.
\<close>

definition dms :: "(real \<Rightarrow> real) \<Rightarrow> pyval \<Rightarrow> pyerr + real" where
  "dms rnd y =
     bindE (index y 0) (\<lambda>y0. bindE (index y 1) (\<lambda>y1. bindE (truediv rnd y0 y1) (\<lambda>d.
     bindE (index y 2) (\<lambda>y2. bindE (index y 3) (\<lambda>y3. bindE (truediv rnd y2 y3) (\<lambda>m.
     let s1 = rnd (d + rnd (m / 60)) in
     bindE (index y 4) (\<lambda>y4. bindE (index y 5) (\<lambda>y5. bindE (truediv rnd y4 y5) (\<lambda>s.
     Inr (rnd (s1 + rnd (s / 3600))))))))))))"

text \<open>The part of \<^verbatim>\<open>convert_gpstag\<close> under the comment \<^verbatim>\<open>### lat ###\<close>.\<close>

definition gps_lat :: "(real \<Rightarrow> real) \<Rightarrow> pyval \<Rightarrow> pyerr + real" where
  "gps_lat rnd gps =
     bindE (getitem gps ''GPSLatitude'') (\<lambda>y.
     bindE (py_len y) (\<lambda>n.
     if n \<noteq> 6 then Inl (RuntimeError (GPSLatitude y)) else
     bindE (dms rnd y) (\<lambda>la.
     if la > 90 \<or> la < 0 then Inl (RuntimeError (GPSLatitude y)) else
     bindE (getitem gps ''GPSLatitudeRef'') (\<lambda>r.
     if r = VStr ''N'' then Inr la
     else if r = VStr ''S'' then Inr (- la)
     else Inl (RuntimeError (GPSLatitudeRef r))))))"

text \<open>The part under \<^verbatim>\<open>### lon ###\<close>.\<close>

definition gps_lon :: "(real \<Rightarrow> real) \<Rightarrow> pyval \<Rightarrow> pyerr + real" where
  "gps_lon rnd gps =
     bindE (getitem gps ''GPSLongitude'') (\<lambda>x.
     bindE (py_len x) (\<lambda>n.
     if n \<noteq> 6 then Inl (RuntimeError (GPSLongitude x)) else
     bindE (dms rnd x) (\<lambda>lo.
     if lo > 180 \<or> lo < 0 then Inl (RuntimeError (GPSLongitude x)) else
     bindE (getitem gps ''GPSLongitudeRef'') (\<lambda>r.
     if r = VStr ''E'' then Inr lo
     else if r = VStr ''W'' then Inr (- lo)
     else Inl (RuntimeError (GPSLongitudeRef r))))))"

text \<open>The part under \<^verbatim>\<open>### alti ###\<close>.\<close>

definition gps_alt :: "(real \<Rightarrow> real) \<Rightarrow> pyval \<Rightarrow> pyerr + real" where
  "gps_alt rnd gps =
     bindE (getitem gps ''GPSAltitudeRef'') (\<lambda>r.
     if \<not> eq_int r 0 then Inl (RuntimeError (GPSAltitudeRef r)) else
     bindE (getitem gps ''GPSAltitude'') (\<lambda>z.
     bindE (index z 0) (\<lambda>z0. bindE (index z 1) (\<lambda>z1. truediv rnd z0 z1))))"

definition convert_gpstag :: "(real \<Rightarrow> real) \<Rightarrow> TiffTag \<Rightarrow> pyerr + WGS84Coords" where
  "convert_gpstag rnd tag =
     (if tag_name tag \<noteq> ''GPSTag'' then Inl ValueError else
      let gps = tag_value tag in
      bindE (getitem gps ''GPSMapDatum'') (\<lambda>datum.
      if datum \<noteq> VStr ''WGS-84'' then Inl (RuntimeError (GPSMapDatum datum)) else
      bindE (gps_lat rnd gps) (\<lambda>la.
      bindE (gps_lon rnd gps) (\<lambda>lo.
      bindE (gps_alt rnd gps) (\<lambda>al.
      Inr \<lparr>lat = la, lon = lo, alt = al\<rparr>)))))"

subsection \<open>Example GPS groups\<close>

text \<open>
  A GPS group as the tag reader delivers it, with the two coordinate sequences
  and the two hemisphere references left open, and a degree/minute/second
  sequence with the seconds in hundredths.
\<close>

definition example_gps :: "pyval \<Rightarrow> pyval \<Rightarrow> pyval \<Rightarrow> pyval \<Rightarrow> pyval" where
  "example_gps y r1 x r2 = VDict
     [(''GPSMapDatum'', VStr ''WGS-84''),
      (''GPSLatitude'', y), (''GPSLatitudeRef'', r1),
      (''GPSLongitude'', x), (''GPSLongitudeRef'', r2),
      (''GPSAltitudeRef'', VInt 0),
      (''GPSAltitude'', VTuple [VInt 3412, VInt 100])]"

definition sexagesimal :: "int \<Rightarrow> int \<Rightarrow> int \<Rightarrow> pyval" where
  "sexagesimal d m s = VTuple [VInt d, VInt 1, VInt m, VInt 1, VInt s, VInt 100]"

subsection \<open>Well-typed GPS sequences and the unchecked precondition\<close>

text \<open>
  The tag reader delivers a rational sequence as a tuple of integers, numerator
  and denominator alternating. \<open>denominators_ok\<close> says that none of the three
  denominators of a degree/minute/second sequence is zero, \<open>altitude_ok\<close> that the
  altitude sequence has its two elements and a denominator that is not zero.
\<close>

fun is_int :: "pyval \<Rightarrow> bool" where
  "is_int (VInt a) = True"
| "is_int _ = False"

fun int_tuple :: "pyval \<Rightarrow> bool" where
  "int_tuple (VTuple xs) = list_all is_int xs"
| "int_tuple _ = False"

fun zero_at :: "pyval \<Rightarrow> nat \<Rightarrow> bool" where
  "zero_at (VTuple xs) i = (i < length xs \<and> xs ! i = VInt 0)"
| "zero_at _ i = False"

definition denominators_ok :: "pyval \<Rightarrow> bool" where
  "denominators_ok y = (\<not> zero_at y 1 \<and> \<not> zero_at y 3 \<and> \<not> zero_at y 5)"

definition altitude_ok :: "pyval \<Rightarrow> bool" where
  "altitude_ok z = (py_len z \<noteq> Inr 0 \<and> py_len z \<noteq> Inr 1 \<and> \<not> zero_at z 1)"

text \<open>
  \<open>quotients_fit\<close> says that no quotient of a numerator by a nonzero denominator
  of the sequence rounds beyond the largest float.
\<close>

fun pairs_fit :: "(real \<Rightarrow> real) \<Rightarrow> pyval list \<Rightarrow> bool" where
  "pairs_fit rnd (VInt a # VInt b # xs) =
     ((b = 0 \<or> \<bar>rnd (of_int a / of_int b)\<bar> \<le> float_max) \<and> pairs_fit rnd xs)"
| "pairs_fit rnd xs = True"

definition quotients_fit :: "(real \<Rightarrow> real) \<Rightarrow> pyval \<Rightarrow> bool" where
  "quotients_fit rnd y = (case y of VTuple xs \<Rightarrow> pairs_fit rnd xs | _ \<Rightarrow> True)"

text \<open>The example group with the altitude reference 1, below sea level.\<close>

definition example_gps_below :: pyval where
  "example_gps_below = VDict
     [(''GPSMapDatum'', VStr ''WGS-84''),
      (''GPSLatitude'', sexagesimal 52 30 0), (''GPSLatitudeRef'', VStr ''N''),
      (''GPSLongitude'', sexagesimal 13 24 0), (''GPSLongitudeRef'', VStr ''E''),
      (''GPSAltitudeRef'', VInt 1),
      (''GPSAltitude'', VTuple [VInt 3412, VInt 100])]"

text \<open>The example group with an altitude sequence that lacks its denominator.\<close>

definition example_gps_short :: pyval where
  "example_gps_short = VDict
     [(''GPSMapDatum'', VStr ''WGS-84''),
      (''GPSLatitude'', sexagesimal 52 30 0), (''GPSLatitudeRef'', VStr ''N''),
      (''GPSLongitude'', sexagesimal 13 24 0), (''GPSLongitudeRef'', VStr ''E''),
      (''GPSAltitudeRef'', VInt 0),
      (''GPSAltitude'', VTuple [VInt 3412])]"

section \<open>The XMP packet\<close>

subsection \<open>The two patterns\<close>

text \<open>
  The library matches two regular expressions with \<^verbatim>\<open>fullmatch\<close>. Each is
  embedded as a function that reads the text piece by piece in the order of the
  pattern. Every repetition in the two patterns is followed by a character
  outside its own class, so a longest match of each piece is the only one that
  can succeed and no backtracking is lost. The text is ASCII (it was decoded as
  such), on which \<^verbatim>\<open>\s\<close> is tab, line feed, vertical tab, form feed, carriage
  return and space, and \<^verbatim>\<open>\w\<close> is a letter, a digit or the underscore.
\<close>

definition is_space :: "char \<Rightarrow> bool" where
  "is_space c = (c \<in> set [CHR 0x09, CHR 0x0A, CHR 0x0B, CHR 0x0C, CHR 0x0D, CHR '' ''])"

definition is_word :: "char \<Rightarrow> bool" where
  "is_word c = (let n = (of_char c :: nat) in
     (48 \<le> n \<and> n \<le> 57) \<or> (65 \<le> n \<and> n \<le> 90) \<or> (97 \<le> n \<and> n \<le> 122) \<or> n = 95)"

text \<open>A literal piece of a pattern: the rest of the text after it, if the text starts with it.\<close>

fun lit :: "string \<Rightarrow> string \<Rightarrow> string option" where
  "lit [] s = Some s"
| "lit (a # as) [] = None"
| "lit (a # as) (c # cs) = (if a = c then lit as cs else None)"

text \<open>\<^verbatim>\<open>\s+\<close>.\<close>

fun spaces1 :: "string \<Rightarrow> string option" where
  "spaces1 [] = None"
| "spaces1 (c # cs) = (if is_space c then Some (dropWhile is_space cs) else None)"

text \<open>\<^verbatim>\<open>(?:'[^'>]*'|"[^">]*")\<close>: a quote, a run without that quote and without \<^verbatim>\<open>>\<close>, the same quote.\<close>

definition is_quote :: "char \<Rightarrow> bool" where
  "is_quote c = (c = CHR 0x27 \<or> c = CHR 0x22)"

fun quoted :: "string \<Rightarrow> string option" where
  "quoted [] = None"
| "quoted (q # cs) =
     (if is_quote q then
        (case dropWhile (\<lambda>c. c \<noteq> q \<and> c \<noteq> CHR ''>'') cs of
           [] \<Rightarrow> None
         | c # rest \<Rightarrow> if c = q then Some rest else None)
      else None)"

text \<open>\<^verbatim>\<open>id=(?P<q>["'])W5M0MpCehiHzreSzNTczkc9d\g<q>\<close>: the closing quote is the opening one.\<close>

definition xmp_id :: string where
  "xmp_id = ''W5M0MpCehiHzreSzNTczkc9d''"

fun id_attr :: "string \<Rightarrow> string option" where
  "id_attr s =
     (case lit ''id='' s of
        None \<Rightarrow> None
      | Some [] \<Rightarrow> None
      | Some (q # cs) \<Rightarrow> if is_quote q then lit (xmp_id @ [q]) cs else None)"

text \<open>
  The head of \<^verbatim>\<open>_xmp_re\<close>, up to and including the \<^verbatim>\<open>?>\<close> of the first processing
  instruction: the rest of the text after it.
\<close>

definition xmp_head :: "string \<Rightarrow> string option" where
  "xmp_head s =
     Option.bind (lit ''<?xpacket'' (dropWhile is_space s)) (\<lambda>s.
     Option.bind (spaces1 s) (\<lambda>s.
     Option.bind (lit ''begin='' s) (\<lambda>s.
     Option.bind (quoted s) (\<lambda>s.
     Option.bind (spaces1 s) (\<lambda>s.
     Option.bind (id_attr s) (\<lambda>s.
     lit ''?>'' s))))))"

text \<open>
  The tail of \<^verbatim>\<open><?xpacket \s+ end=(?:'[^'>]*'|"[^">]*") \?> [\s\x00]*\Z\<close>, read from the end
  of the text backwards, so on the reversed text: the reversed text before it.
\<close>

definition xmp_tail :: "string \<Rightarrow> string option" where
  "xmp_tail r =
     Option.bind (lit (rev ''?>'') (dropWhile (\<lambda>c. is_space c \<or> c = CHR 0x00) r)) (\<lambda>r.
     Option.bind (quoted r) (\<lambda>r.
     Option.bind (lit (rev ''end='') r) (\<lambda>r.
     Option.bind (spaces1 r) (\<lambda>r.
     lit (rev ''<?xpacket'') r))))"

text \<open>\<^verbatim>\<open>_xmp_re.fullmatch\<close>: the group \<^verbatim>\<open>content\<close> of the match, if the text matches.\<close>

definition xmp_re :: "string \<Rightarrow> string option" where
  "xmp_re s =
     Option.bind (xmp_head s) (\<lambda>s.
     Option.bind (xmp_tail (rev s)) (\<lambda>r. Some (rev r)))"

text \<open>\<^verbatim>\<open>_tagname_re.fullmatch\<close>, \<^verbatim>\<open>\A\{[^\}]+\}(?P<name>\w+)\Z\<close>: the group \<^verbatim>\<open>name\<close>.\<close>

fun tagname_re :: "string \<Rightarrow> string option" where
  "tagname_re [] = None"
| "tagname_re (c # cs) =
     (if c = CHR ''{'' then
        (let ns = takeWhile (\<lambda>c. c \<noteq> CHR ''}'') cs; rest = dropWhile (\<lambda>c. c \<noteq> CHR ''}'') cs in
         if ns = [] then None
         else (case rest of
                 [] \<Rightarrow> None
               | b # nm \<Rightarrow> if nm \<noteq> [] \<and> list_all is_word nm then Some nm else None))
      else None)"

subsection \<open>Element trees\<close>

text \<open>
  The XML parser of the standard library is not part of the program: it is the
  parameter \<open>fromstring\<close> of the functions below, \<open>None\<close> standing for its
  \<^verbatim>\<open>ParseError\<close>. Its result is an element tree: a tag (\<^verbatim>\<open>{namespace}name\<close>), the text
  before the first child, the children, and the text after the element's end tag;
  an absent text is the empty one.
\<close>

datatype element =
  Element (el_tag: string) (el_text: string) (el_children: "element list") (el_tail: string)

text \<open>\<^verbatim>\<open>e.iter()\<close>: the element and its descendants in document order.\<close>

fun iter_el :: "element \<Rightarrow> element list" where
  "iter_el (Element t tx cs ta) = Element t tx cs ta # concat (map iter_el cs)"

text \<open>\<^verbatim>\<open>x.findall('.//{ns}*')\<close>: the proper descendants whose tag starts with \<^verbatim>\<open>{ns}\<close>.\<close>

definition findall :: "element \<Rightarrow> string \<Rightarrow> element list" where
  "findall x ns =
     filter (\<lambda>e. take (length ns + 2) (el_tag e) = CHR ''{'' # ns @ ''}'')
       (concat (map iter_el (el_children x)))"

text \<open>\<^verbatim>\<open>e.itertext()\<close>: the non-empty texts inside the element in document order.\<close>

fun itertext :: "element \<Rightarrow> string list" where
  "itertext (Element t tx cs ta) =
     (if tx = [] then [] else [tx]) @
     concat (map (\<lambda>c. itertext c @ (if el_tail c = [] then [] else [el_tail c])) cs)"

text \<open>\<^verbatim>\<open>' '.join(xs)\<close> and \<^verbatim>\<open>s.strip()\<close>; Python's white space in ASCII includes the four separators 28 to 31.\<close>

fun join_space :: "string list \<Rightarrow> string" where
  "join_space [] = []"
| "join_space [x] = x"
| "join_space (x # y # ys) = x @ '' '' @ join_space (y # ys)"

definition py_isspace :: "char \<Rightarrow> bool" where
  "py_isspace c = (let n = (of_char c :: nat) in (9 \<le> n \<and> n \<le> 13) \<or> (28 \<le> n \<and> n \<le> 32))"

definition strip :: "string \<Rightarrow> string" where
  "strip s = rev (dropWhile py_isspace (rev (dropWhile py_isspace s)))"

section \<open>The tag normalizer\<close>

text \<open>
  A generator is embedded as what its consumer can observe: the pairs it yields,
  in order, and the exception that ends it, if one does. The pairs before the
  exception have been handed to the consumer when it is raised.
\<close>

type_synonym pairs = "(string \<times> pyval) list"
type_synonym gen = "pairs \<times> pyerr option"

definition raise :: "pyerr \<Rightarrow> gen" where
  "raise e = ([], Some e)"

text \<open>Running one generator after another: the second runs only if the first ends normally.\<close>

definition seq :: "gen \<Rightarrow> gen \<Rightarrow> gen" where
  "seq g h = (case snd g of Some e \<Rightarrow> g | None \<Rightarrow> (fst g @ fst h, snd h))"

text \<open>\<^verbatim>\<open>b.decode(encoding='ASCII')\<close>.\<close>

definition decode_ascii :: "string \<Rightarrow> pyerr + string" where
  "decode_ascii b = (if list_all (\<lambda>c. (of_char c :: nat) < 128) b then Inr b else Inl UnicodeDecodeError)"

definition ns_dji :: string where
  "ns_dji = ''http://www.dji.com/drone-dji/1.0/''"

definition ns_flir :: string where
  "ns_flir = ''http://www.dji.com/FLIR/1.0/''"

text \<open>The loop over the selected elements of the packet.\<close>

fun elems_it :: "element list \<Rightarrow> gen" where
  "elems_it [] = ([], None)"
| "elems_it (e # es) =
     (case tagname_re (el_tag e) of
        None \<Rightarrow> raise (RuntimeError (FailedToParseTagName (el_tag e)))
      | Some n \<Rightarrow> seq ([(n, VStr (strip (join_space (itertext e))))], None) (elems_it es))"

text \<open>The branch of the tag named \<^verbatim>\<open>XMP\<close>; only a byte string has a \<^verbatim>\<open>decode\<close> method.\<close>

definition xmp_it :: "(string \<Rightarrow> element option) \<Rightarrow> pyval \<Rightarrow> gen" where
  "xmp_it fromstring v =
     (case v of
        VBytes b \<Rightarrow>
          (case decode_ascii b of
             Inl e \<Rightarrow> raise e
           | Inr s \<Rightarrow>
               (case xmp_re s of
                  None \<Rightarrow> raise (RuntimeError (FailedToParseXMP v))
                | Some content \<Rightarrow>
                    (case fromstring content of
                       None \<Rightarrow> raise ParseError
                     | Some x \<Rightarrow> elems_it (findall x ns_dji @ findall x ns_flir))))
      | _ \<Rightarrow> raise AttributeError)"

text \<open>The branch of a nested group.\<close>

fun dict_it :: "pairs \<Rightarrow> gen" where
  "dict_it [] = ([], None)"
| "dict_it ((k, v) # d) =
     (case v of
        VBytes b \<Rightarrow>
          (case decode_ascii b of
             Inl e \<Rightarrow> raise e
           | Inr s \<Rightarrow> seq ([(k, VStr s)], None) (dict_it d))
      | _ \<Rightarrow> seq ([(k, v)], None) (dict_it d))"

text \<open>The body of the loop over the tags of the page.\<close>

definition tag_it :: "(string \<Rightarrow> element option) \<Rightarrow> TiffTag \<Rightarrow> gen" where
  "tag_it fromstring tag =
     (if tag_name tag = ''XMP'' then xmp_it fromstring (tag_value tag)
      else (case tag_value tag of
              VDict d \<Rightarrow> dict_it d
            | VEnum n \<Rightarrow> ([(tag_name tag, VStr n)], None)
            | v \<Rightarrow> ([(tag_name tag, v)], None)))"

fun tags_it :: "(string \<Rightarrow> element option) \<Rightarrow> TiffTag list \<Rightarrow> gen" where
  "tags_it fromstring [] = ([], None)"
| "tags_it fromstring (t # ts) = seq (tag_it fromstring t) (tags_it fromstring ts)"

text \<open>
  A page is the sequence of its tags, in the order the loop meets them.
  \<^verbatim>\<open>page.tags[name]\<close> is the first tag of that name, a \<^verbatim>\<open>KeyError\<close> if there is none.
\<close>

datatype TiffPage = TiffPage (tags: "TiffTag list")

definition page_tag :: "TiffPage \<Rightarrow> string \<Rightarrow> pyerr + TiffTag" where
  "page_tag page n =
     (case find (\<lambda>t. tag_name t = n) (tags page) of None \<Rightarrow> Inl (KeyError n) | Some t \<Rightarrow> Inr t)"

definition page_tagconv_it :: "(string \<Rightarrow> element option) \<Rightarrow> (real \<Rightarrow> real) \<Rightarrow> TiffPage \<Rightarrow> gen" where
  "page_tagconv_it fromstring rnd page =
     (case page_tag page ''Make'' of
        Inl e \<Rightarrow> raise e
      | Inr mk \<Rightarrow>
     (case page_tag page ''Model'' of
        Inl e \<Rightarrow> raise e
      | Inr md \<Rightarrow>
          if tag_value mk \<noteq> VStr ''DJI'' \<or> tag_value md \<noteq> VStr ''XT2''
          then raise (RuntimeError (NotDJIXT2 (tag_value mk) (tag_value md)))
          else seq (tags_it fromstring (tags page))
                 (case page_tag page ''GPSTag'' of
                    Inl e \<Rightarrow> ([], None)
                  | Inr t \<Rightarrow>
                      (case convert_gpstag rnd t of
                         Inl e \<Rightarrow> raise e
                       | Inr c \<Rightarrow> ([(''Coords'', VCoords c)], None)))))"

section \<open>The property assembler\<close>

text \<open>
  The dictionary \<^verbatim>\<open>atts\<close> is embedded as the list of its items in insertion order,
  with distinct keys. The loop of \<^verbatim>\<open>pageprops\<close> consumes the pairs one by one.
\<close>

fun assemble :: "pairs \<Rightarrow> pairs \<Rightarrow> pyerr + pairs" where
  "assemble atts [] = Inr atts"
| "assemble atts ((k, v) # ps) =
     (case map_of atts k of
        Some old \<Rightarrow> Inl (KeyExists k old v)
      | None \<Rightarrow> assemble (atts @ [(k, v)]) ps)"

text \<open>\<^verbatim>\<open>atts[k] = v\<close>: an existing key keeps its place, a new one goes to the end.\<close>

fun setitem :: "pairs \<Rightarrow> string \<Rightarrow> pyval \<Rightarrow> pairs" where
  "setitem [] k v = [(k, v)]"
| "setitem ((k', v') # d) k v = (if k' = k then (k, v) # d else (k', v') # setitem d k v)"

subsection \<open>\<^verbatim>\<open>int()\<close>\<close>

text \<open>
  \<^verbatim>\<open>int(v)\<close> on a text or a byte string: white space around it is dropped, a sign
  may lead, and the digits may be separated by single underscores. On an
  integer it is the identity.
\<close>

definition is_digit :: "char \<Rightarrow> bool" where
  "is_digit c = (let n = (of_char c :: nat) in 48 \<le> n \<and> n \<le> 57)"

definition digit_val :: "char \<Rightarrow> int" where
  "digit_val c = int (of_char c) - 48"

fun digits_val :: "int \<Rightarrow> string \<Rightarrow> int option" where
  "digits_val acc [] = Some acc"
| "digits_val acc [c] = (if is_digit c then Some (acc * 10 + digit_val c) else None)"
| "digits_val acc (c # d # cs) =
     (if is_digit c then
        (if d = CHR ''_'' then (if cs = [] then None else digits_val (acc * 10 + digit_val c) cs)
         else digits_val (acc * 10 + digit_val c) (d # cs))
      else None)"

definition int_of_text :: "string \<Rightarrow> int option" where
  "int_of_text s =
     (case strip s of
        [] \<Rightarrow> None
      | c # cs \<Rightarrow>
          if c = CHR ''-'' then (if cs = [] then None else map_option uminus (digits_val 0 cs))
          else if c = CHR ''+'' then (if cs = [] then None else digits_val 0 cs)
          else digits_val 0 (c # cs))"

fun py_int :: "pyval \<Rightarrow> pyerr + int" where
  "py_int (VInt i) = Inr i"
| "py_int (VStr s) = (case int_of_text s of None \<Rightarrow> Inl ValueError | Some i \<Rightarrow> Inr i)"
| "py_int (VBytes s) = (case int_of_text s of None \<Rightarrow> Inl ValueError | Some i \<Rightarrow> Inr i)"
| "py_int _ = Inl TypeError"

subsection \<open>The timestamp\<close>

text \<open>
  \<^verbatim>\<open>datetime.strptime(s, '%Y:%m:%d %H:%M:%S')\<close> belongs to the standard library; it
  is the parameter \<open>strptime\<close> of the functions below. It accepts a text only.
\<close>

definition py_strptime :: "(string \<Rightarrow> pyerr + datetime) \<Rightarrow> pyval \<Rightarrow> pyerr + datetime" where
  "py_strptime strptime v = (case v of VStr s \<Rightarrow> strptime s | _ \<Rightarrow> Inl TypeError)"

text \<open>\<^verbatim>\<open>dt.replace(microsecond=us)\<close>: the constructor accepts 0 to 999999 only.\<close>

definition replace_microsecond :: "datetime \<Rightarrow> int \<Rightarrow> pyerr + datetime" where
  "replace_microsecond dt us =
     (if 0 \<le> us \<and> us \<le> 999999 then Inr (dt\<lparr>microsecond := us\<rparr>) else Inl ValueError)"

text \<open>The part of \<^verbatim>\<open>pageprops\<close> under the comment \<^verbatim>\<open># fixup date/time\<close>.\<close>

definition fixup_datetime :: "(string \<Rightarrow> pyerr + datetime) \<Rightarrow> pairs \<Rightarrow> pyerr + pairs" where
  "fixup_datetime strptime atts =
     (case map_of atts ''DateTimeOriginal'' of
        None \<Rightarrow> Inr atts
      | Some s \<Rightarrow>
          bindE (py_strptime strptime s) (\<lambda>dt.
          bindE (case map_of atts ''SubsecTimeOriginal'' of
                   None \<Rightarrow> Inr dt
                 | Some sub \<Rightarrow> bindE (py_int sub) (\<lambda>n. replace_microsecond dt (n * 10000))) (\<lambda>dt.
          Inr (setitem atts ''DateTimeOriginal'' (VDateTime dt)))))"

text \<open>
  \<^verbatim>\<open>pageprops\<close>. The loop raises at the first repeated key; the exception that ends
  the generator, if any, reaches the caller only when every pair before it was stored.
\<close>

definition pageprops ::
  "(string \<Rightarrow> element option) \<Rightarrow> (real \<Rightarrow> real) \<Rightarrow> (string \<Rightarrow> pyerr + datetime) \<Rightarrow> TiffPage \<Rightarrow> pyerr + pairs" where
  "pageprops fromstring rnd strptime page =
     (let g = page_tagconv_it fromstring rnd page in
      bindE (assemble [] (fst g)) (\<lambda>atts.
      case snd g of
        Some e \<Rightarrow> Inl e
      | None \<Rightarrow> fixup_datetime strptime atts))"

subsection \<open>An instance of the library's parser\<close>

text \<open>
  The library's parser on the texts in which every field is written with all
  its digits, \<^verbatim>\<open>YYYY:MM:DD HH:MM:SS\<close>; it is the instance of \<open>strptime\<close> the examples
  use. Any other text is refused here.
\<close>

definition two_digits :: "string \<Rightarrow> int option" where
  "two_digits s = (if length s = 2 \<and> list_all is_digit s then digits_val 0 s else None)"

definition days_in_month :: "int \<Rightarrow> int \<Rightarrow> int" where
  "days_in_month y m =
     (if m = 2 then (if y mod 4 = 0 \<and> (y mod 100 \<noteq> 0 \<or> y mod 400 = 0) then 29 else 28)
      else if m \<in> {4, 6, 9, 11} then 30 else 31)"

definition strptime_padded :: "string \<Rightarrow> pyerr + datetime" where
  "strptime_padded s =
     (if length s = 19 \<and> s ! 4 = CHR '':'' \<and> s ! 7 = CHR '':'' \<and> s ! 10 = CHR '' '' \<and>
         s ! 13 = CHR '':'' \<and> s ! 16 = CHR '':'' \<and> list_all is_digit (take 4 s) then
        (case (digits_val 0 (take 4 s), two_digits (take 2 (drop 5 s)), two_digits (take 2 (drop 8 s)),
               two_digits (take 2 (drop 11 s)), two_digits (take 2 (drop 14 s)),
               two_digits (take 2 (drop 17 s))) of
           (Some y, Some m, Some d, Some h, Some mi, Some sec) \<Rightarrow>
             if 1 \<le> y \<and> 1 \<le> m \<and> m \<le> 12 \<and> 1 \<le> d \<and> d \<le> days_in_month y m \<and>
                h \<le> 23 \<and> mi \<le> 59 \<and> sec \<le> 59
             then Inr \<lparr>year = y, month = m, day = d, hour = h, minute = mi, second = sec,
                       microsecond = 0\<rparr>
             else Inl ValueError
         | _ \<Rightarrow> Inl ValueError)
      else Inl ValueError)"

subsection \<open>Example pages\<close>

text \<open>A page of the expected camera, with further tags after the two that identify it.\<close>

definition example_page :: "TiffTag list \<Rightarrow> TiffPage" where
  "example_page ts = TiffPage (TiffTag ''Make'' (VStr ''DJI'') # TiffTag ''Model'' (VStr ''XT2'') # ts)"

(*THEOREMS*)

section \<open>Properties of the GPS decoder\<close>

lemma bindE_simps [simp]: "bindE (Inl e) f = Inl e" "bindE (Inr x) f = f x"
  by (simp_all add: bindE_def)

lemma bindE_eq_Inr: "bindE r f = Inr v \<longleftrightarrow> (\<exists>x. r = Inr x \<and> f x = Inr v)"
  by (cases r) simp_all

lemma float_max_ge: "2 ^ 64 \<le> float_max"
proof -
  have "(2::real) ^ 1024 = 2 ^ 971 * 2 ^ 53" by (simp add: power_add [symmetric])
  then have "float_max = 2 ^ 971 * (2 ^ 53 - 1)" by (simp add: float_max_def algebra_simps)
  moreover have "(2::real) ^ 971 * 1 \<le> 2 ^ 971 * (2 ^ 53 - 1)"
    by (rule mult_left_mono) simp_all
  moreover have "(2::real) ^ 64 \<le> 2 ^ 971" by (rule power_increasing) simp_all
  ultimately show ?thesis by simp
qed

lemma fits_small: "\<bar>x\<bar> \<le> 2 ^ 64 \<Longrightarrow> \<not> float_max < \<bar>x\<bar>"
  using float_max_ge by linarith

lemma float_max_num: "18446744073709551616 \<le> float_max"
  using float_max_ge by simp

lemma gps_lat_eval:
  assumes "getitem gps ''GPSLatitude'' = Inr y" "py_len y = Inr 6" "dms rnd y = Inr la"
    "0 \<le> la" "la \<le> 90" "getitem gps ''GPSLatitudeRef'' = Inr r"
  shows "gps_lat rnd gps =
     (if r = VStr ''N'' then Inr la else if r = VStr ''S'' then Inr (- la)
      else Inl (RuntimeError (GPSLatitudeRef r)))"
  using assms by (simp add: gps_lat_def)

lemma gps_lon_eval:
  assumes "getitem gps ''GPSLongitude'' = Inr x" "py_len x = Inr 6" "dms rnd x = Inr lo"
    "0 \<le> lo" "lo \<le> 180" "getitem gps ''GPSLongitudeRef'' = Inr r"
  shows "gps_lon rnd gps =
     (if r = VStr ''E'' then Inr lo else if r = VStr ''W'' then Inr (- lo)
      else Inl (RuntimeError (GPSLongitudeRef r)))"
  using assms by (simp add: gps_lon_def)

lemma gps_lat_Inr_sign:
  assumes "gps_lat rnd gps = Inr v" "getitem gps ''GPSLatitude'' = Inr y" "dms rnd y = Inr la"
    "getitem gps ''GPSLatitudeRef'' = Inr r"
  shows "(r = VStr ''N'' \<and> v = la \<and> 0 \<le> v) \<or> (r = VStr ''S'' \<and> v = - la \<and> v \<le> 0)"
  using assms by (auto simp add: gps_lat_def bindE_eq_Inr split: if_splits)

lemma gps_lon_Inr_sign:
  assumes "gps_lon rnd gps = Inr v" "getitem gps ''GPSLongitude'' = Inr x" "dms rnd x = Inr lo"
    "getitem gps ''GPSLongitudeRef'' = Inr r"
  shows "(r = VStr ''E'' \<and> v = lo \<and> 0 \<le> v) \<or> (r = VStr ''W'' \<and> v = - lo \<and> v \<le> 0)"
  using assms by (auto simp add: gps_lon_def bindE_eq_Inr split: if_splits)

lemma convert_gpstag_eval:
  assumes "tag_name tag = ''GPSTag''"
    "getitem (tag_value tag) ''GPSMapDatum'' = Inr (VStr ''WGS-84'')"
  shows "convert_gpstag rnd tag =
     bindE (gps_lat rnd (tag_value tag)) (\<lambda>la.
     bindE (gps_lon rnd (tag_value tag)) (\<lambda>lo.
     bindE (gps_alt rnd (tag_value tag)) (\<lambda>al.
     Inr \<lparr>lat = la, lon = lo, alt = al\<rparr>)))"
  using assms by (simp add: convert_gpstag_def Let_def)

lemma convert_gpstag_Inr:
  assumes "convert_gpstag rnd tag = Inr c"
  shows "gps_lat rnd (tag_value tag) = Inr (lat c) \<and> gps_lon rnd (tag_value tag) = Inr (lon c)
     \<and> gps_alt rnd (tag_value tag) = Inr (alt c)"
  using assms by (auto simp add: convert_gpstag_def Let_def bindE_eq_Inr split: if_splits)

lemma example_gps_getitem:
  "getitem (example_gps y r1 x r2) ''GPSMapDatum'' = Inr (VStr ''WGS-84'')"
  "getitem (example_gps y r1 x r2) ''GPSLatitude'' = Inr y"
  "getitem (example_gps y r1 x r2) ''GPSLatitudeRef'' = Inr r1"
  "getitem (example_gps y r1 x r2) ''GPSLongitude'' = Inr x"
  "getitem (example_gps y r1 x r2) ''GPSLongitudeRef'' = Inr r2"
  "getitem (example_gps y r1 x r2) ''GPSAltitudeRef'' = Inr (VInt 0)"
  "getitem (example_gps y r1 x r2) ''GPSAltitude'' = Inr (VTuple [VInt 3412, VInt 100])"
  by (simp_all add: example_gps_def)

lemma example_gps_alt: "gps_alt (\<lambda>v. v) (example_gps y r1 x r2) = Inr (853 / 25)"
  using float_max_num by (simp add: gps_alt_def example_gps_getitem)

lemma sexagesimal_len: "py_len (sexagesimal d m s) = Inr 6"
  by (simp add: sexagesimal_def)

lemma sexagesimal_dms:
  assumes "\<bar>d\<bar> \<le> 1000" "\<bar>m\<bar> \<le> 1000" "\<bar>s\<bar> \<le> 1000"
  shows "dms (\<lambda>v. v) (sexagesimal d m s) = Inr (of_int d + of_int m / 60 + of_int s / 100 / 3600)"
proof -
  have "\<bar>real_of_int d\<bar> \<le> 2 ^ 64" "\<bar>real_of_int m\<bar> \<le> 2 ^ 64" "\<bar>real_of_int s / 100\<bar> \<le> 2 ^ 64"
    using assms by simp_all
  then have "\<not> float_max < \<bar>real_of_int d\<bar>" "\<not> float_max < \<bar>real_of_int m\<bar>"
    "\<not> float_max < \<bar>real_of_int s / 100\<bar>"
    by (simp_all only: fits_small not_False_eq_True)
  then show ?thesis by (simp add: sexagesimal_def dms_def)
qed

lemma example_gps_below_getitem:
  "getitem example_gps_below ''GPSMapDatum'' = Inr (VStr ''WGS-84'')"
  "getitem example_gps_below ''GPSLatitude'' = Inr (sexagesimal 52 30 0)"
  "getitem example_gps_below ''GPSLatitudeRef'' = Inr (VStr ''N'')"
  "getitem example_gps_below ''GPSLongitude'' = Inr (sexagesimal 13 24 0)"
  "getitem example_gps_below ''GPSLongitudeRef'' = Inr (VStr ''E'')"
  "getitem example_gps_below ''GPSAltitudeRef'' = Inr (VInt 1)"
  "getitem example_gps_below ''GPSAltitude'' = Inr (VTuple [VInt 3412, VInt 100])"
  by (simp_all add: example_gps_below_def)

text \<open>
  Claim C1, as amended. A GPS group that passes the datum check and the shape
  and range checks of the latitude is rejected with the invalid-reference error
  showing the reference when its latitude reference is neither \<^verbatim>\<open>'N'\<close> nor \<^verbatim>\<open>'S'\<close>;
  the same holds for the longitude reference, \<^verbatim>\<open>'E'\<close> or \<^verbatim>\<open>'W'\<close>, once the latitude is
  accepted. When both references are accepted and the altitude part is accepted
  too, the decoder returns the coordinate whose latitude is the decoded
  magnitude for \<^verbatim>\<open>'N'\<close> and the negated magnitude for \<^verbatim>\<open>'S'\<close>, and likewise for the
  longitude. Whenever the decoder returns a coordinate, with no assumption on the
  ranges, its latitude is the magnitude and not negative under \<^verbatim>\<open>'N'\<close> and the
  negated magnitude and not positive under \<^verbatim>\<open>'S'\<close>, and likewise its longitude.
\<close>

theorem convert_gpstag_hemisphere:
  assumes "tag_name tag = ''GPSTag''"
    and "getitem (tag_value tag) ''GPSMapDatum'' = Inr (VStr ''WGS-84'')"
    and "getitem (tag_value tag) ''GPSLatitude'' = Inr y"
    and "py_len y = Inr 6" and "dms rnd y = Inr la"
    and "getitem (tag_value tag) ''GPSLatitudeRef'' = Inr r1"
  shows "(0 \<le> la \<and> la \<le> 90 \<and> r1 \<noteq> VStr ''N'' \<and> r1 \<noteq> VStr ''S'' \<longrightarrow>
            convert_gpstag rnd tag = Inl (RuntimeError (GPSLatitudeRef r1)))
    \<and> (getitem (tag_value tag) ''GPSLongitude'' = Inr x \<and>
        py_len x = Inr 6 \<and> dms rnd x = Inr lo \<and>
        getitem (tag_value tag) ''GPSLongitudeRef'' = Inr r2 \<longrightarrow>
          (0 \<le> la \<and> la \<le> 90 \<and> (r1 = VStr ''N'' \<or> r1 = VStr ''S'') \<and>
           0 \<le> lo \<and> lo \<le> 180 \<and> r2 \<noteq> VStr ''E'' \<and> r2 \<noteq> VStr ''W'' \<longrightarrow>
             convert_gpstag rnd tag = Inl (RuntimeError (GPSLongitudeRef r2)))
        \<and> (0 \<le> la \<and> la \<le> 90 \<and> (r1 = VStr ''N'' \<or> r1 = VStr ''S'') \<and>
           0 \<le> lo \<and> lo \<le> 180 \<and> (r2 = VStr ''E'' \<or> r2 = VStr ''W'') \<and>
           gps_alt rnd (tag_value tag) = Inr al \<longrightarrow>
             convert_gpstag rnd tag =
               Inr \<lparr>lat = (if r1 = VStr ''N'' then la else - la),
                    lon = (if r2 = VStr ''E'' then lo else - lo), alt = al\<rparr>)
        \<and> (convert_gpstag rnd tag = Inr c \<longrightarrow>
             ((r1 = VStr ''N'' \<and> lat c = la \<and> 0 \<le> lat c) \<or>
              (r1 = VStr ''S'' \<and> lat c = - la \<and> lat c \<le> 0))
           \<and> ((r2 = VStr ''E'' \<and> lon c = lo \<and> 0 \<le> lon c) \<or>
              (r2 = VStr ''W'' \<and> lon c = - lo \<and> lon c \<le> 0))))"
proof -
  let ?g = "tag_value tag"
  note cv = convert_gpstag_eval[OF assms(1,2), of rnd]
  have A: "convert_gpstag rnd tag = Inl (RuntimeError (GPSLatitudeRef r1))"
    if "0 \<le> la \<and> la \<le> 90 \<and> r1 \<noteq> VStr ''N'' \<and> r1 \<noteq> VStr ''S''"
  proof -
    from that have "gps_lat rnd ?g = Inl (RuntimeError (GPSLatitudeRef r1))"
      using gps_lat_eval[OF assms(3-5) _ _ assms(6)] by simp
    then show ?thesis by (simp add: cv)
  qed
  have L: "gps_lat rnd ?g = Inr (if r1 = VStr ''N'' then la else - la)"
    if "0 \<le> la" "la \<le> 90" "r1 = VStr ''N'' \<or> r1 = VStr ''S''"
    using that(3) gps_lat_eval[OF assms(3-5) that(1,2) assms(6)] by auto
  have B: "convert_gpstag rnd tag = Inl (RuntimeError (GPSLongitudeRef r2))"
    if l: "getitem ?g ''GPSLongitude'' = Inr x \<and> py_len x = Inr 6 \<and> dms rnd x = Inr lo \<and>
        getitem ?g ''GPSLongitudeRef'' = Inr r2"
      and v: "0 \<le> la \<and> la \<le> 90 \<and> (r1 = VStr ''N'' \<or> r1 = VStr ''S'') \<and>
           0 \<le> lo \<and> lo \<le> 180 \<and> r2 \<noteq> VStr ''E'' \<and> r2 \<noteq> VStr ''W''"
  proof -
    from l v have "gps_lon rnd ?g = Inl (RuntimeError (GPSLongitudeRef r2))"
      using gps_lon_eval[of ?g x rnd lo r2] by simp
    moreover from v have "gps_lat rnd ?g = Inr (if r1 = VStr ''N'' then la else - la)"
      by (intro L) simp_all
    ultimately show ?thesis by (simp add: cv)
  qed
  have C: "convert_gpstag rnd tag =
               Inr \<lparr>lat = (if r1 = VStr ''N'' then la else - la),
                    lon = (if r2 = VStr ''E'' then lo else - lo), alt = al\<rparr>"
    if l: "getitem ?g ''GPSLongitude'' = Inr x \<and> py_len x = Inr 6 \<and> dms rnd x = Inr lo \<and>
        getitem ?g ''GPSLongitudeRef'' = Inr r2"
      and v: "0 \<le> la \<and> la \<le> 90 \<and> (r1 = VStr ''N'' \<or> r1 = VStr ''S'') \<and>
           0 \<le> lo \<and> lo \<le> 180 \<and> (r2 = VStr ''E'' \<or> r2 = VStr ''W'') \<and>
           gps_alt rnd ?g = Inr al"
  proof -
    from l v have "gps_lon rnd ?g = (if r2 = VStr ''E'' then Inr lo else if r2 = VStr ''W'' then Inr (- lo)
      else Inl (RuntimeError (GPSLongitudeRef r2)))"
      using gps_lon_eval[of ?g x rnd lo r2] by simp
    with v have "gps_lon rnd ?g = Inr (if r2 = VStr ''E'' then lo else - lo)" by auto
    moreover from v have "gps_lat rnd ?g = Inr (if r1 = VStr ''N'' then la else - la)"
      by (intro L) simp_all
    moreover from v have "gps_alt rnd ?g = Inr al" by simp
    ultimately show ?thesis by (simp add: cv)
  qed
  have D: "((r1 = VStr ''N'' \<and> lat c = la \<and> 0 \<le> lat c) \<or>
              (r1 = VStr ''S'' \<and> lat c = - la \<and> lat c \<le> 0))
           \<and> ((r2 = VStr ''E'' \<and> lon c = lo \<and> 0 \<le> lon c) \<or>
              (r2 = VStr ''W'' \<and> lon c = - lo \<and> lon c \<le> 0))"
    if l: "getitem ?g ''GPSLongitude'' = Inr x \<and> py_len x = Inr 6 \<and> dms rnd x = Inr lo \<and>
        getitem ?g ''GPSLongitudeRef'' = Inr r2"
      and r: "convert_gpstag rnd tag = Inr c"
  proof -
    from l have l': "getitem ?g ''GPSLongitude'' = Inr x" "dms rnd x = Inr lo"
      "getitem ?g ''GPSLongitudeRef'' = Inr r2" by simp_all
    from convert_gpstag_Inr[OF r]
    have g: "gps_lat rnd ?g = Inr (lat c)" "gps_lon rnd ?g = Inr (lon c)" by simp_all
    from gps_lat_Inr_sign[OF g(1) assms(3,5,6)] gps_lon_Inr_sign[OF g(2) l']
    show ?thesis by (rule conjI)
  qed
  show ?thesis
  proof (intro conjI impI)
    assume "0 \<le> la \<and> la \<le> 90 \<and> r1 \<noteq> VStr ''N'' \<and> r1 \<noteq> VStr ''S''"
    then show "convert_gpstag rnd tag = Inl (RuntimeError (GPSLatitudeRef r1))" by (rule A)
  next
    assume l: "getitem ?g ''GPSLongitude'' = Inr x \<and> py_len x = Inr 6 \<and> dms rnd x = Inr lo \<and>
        getitem ?g ''GPSLongitudeRef'' = Inr r2"
    assume "0 \<le> la \<and> la \<le> 90 \<and> (r1 = VStr ''N'' \<or> r1 = VStr ''S'') \<and>
           0 \<le> lo \<and> lo \<le> 180 \<and> r2 \<noteq> VStr ''E'' \<and> r2 \<noteq> VStr ''W''"
    with l show "convert_gpstag rnd tag = Inl (RuntimeError (GPSLongitudeRef r2))" by (rule B)
  next
    assume l: "getitem ?g ''GPSLongitude'' = Inr x \<and> py_len x = Inr 6 \<and> dms rnd x = Inr lo \<and>
        getitem ?g ''GPSLongitudeRef'' = Inr r2"
    assume "0 \<le> la \<and> la \<le> 90 \<and> (r1 = VStr ''N'' \<or> r1 = VStr ''S'') \<and>
           0 \<le> lo \<and> lo \<le> 180 \<and> (r2 = VStr ''E'' \<or> r2 = VStr ''W'') \<and>
           gps_alt rnd ?g = Inr al"
    with l show "convert_gpstag rnd tag =
               Inr \<lparr>lat = (if r1 = VStr ''N'' then la else - la),
                    lon = (if r2 = VStr ''E'' then lo else - lo), alt = al\<rparr>" by (rule C)
  next
    assume l: "getitem ?g ''GPSLongitude'' = Inr x \<and> py_len x = Inr 6 \<and> dms rnd x = Inr lo \<and>
        getitem ?g ''GPSLongitudeRef'' = Inr r2"
    assume "convert_gpstag rnd tag = Inr c"
    with l show "(r1 = VStr ''N'' \<and> lat c = la \<and> 0 \<le> lat c) \<or>
              (r1 = VStr ''S'' \<and> lat c = - la \<and> lat c \<le> 0)"
      by (rule D[THEN conjunct1])
  next
    assume l: "getitem ?g ''GPSLongitude'' = Inr x \<and> py_len x = Inr 6 \<and> dms rnd x = Inr lo \<and>
        getitem ?g ''GPSLongitudeRef'' = Inr r2"
    assume "convert_gpstag rnd tag = Inr c"
    with l show "(r2 = VStr ''E'' \<and> lon c = lo \<and> 0 \<le> lon c) \<or>
              (r2 = VStr ''W'' \<and> lon c = - lo \<and> lon c \<le> 0)"
      by (rule D[THEN conjunct2])
  qed
qed

theorem convert_gpstag_hemisphere_witness:
  "convert_gpstag (\<lambda>v. v)
          (TiffTag ''GPSTag'' (example_gps (sexagesimal 52 30 0) (VStr ''S'')
                                           (sexagesimal 13 24 0) (VStr ''W'')))
      = Inr \<lparr>lat = - (105 / 2), lon = - (67 / 5), alt = 853 / 25\<rparr>
   \<and> convert_gpstag (\<lambda>v. v)
          (TiffTag ''GPSTag'' (example_gps (sexagesimal 52 30 0) (VStr ''X'')
                                           (sexagesimal 13 24 0) (VStr ''W'')))
       = Inl (RuntimeError (GPSLatitudeRef (VStr ''X'')))"
proof -
  let ?y = "sexagesimal 52 30 0" and ?x = "sexagesimal 13 24 0"
  let ?g = "\<lambda>r. example_gps ?y r ?x (VStr ''W'')"
  have y: "dms (\<lambda>v. v) ?y = Inr (105 / 2)" and x: "dms (\<lambda>v. v) ?x = Inr (67 / 5)"
    by (simp_all add: sexagesimal_dms)
  have S: "convert_gpstag (\<lambda>v. v) (TiffTag ''GPSTag'' (?g (VStr ''S'')))
      = Inr \<lparr>lat = - (105 / 2), lon = - (67 / 5), alt = 853 / 25\<rparr>"
    using convert_gpstag_hemisphere[of "TiffTag ''GPSTag'' (?g (VStr ''S''))" ?y "\<lambda>v. v" "105 / 2"
        "VStr ''S''" ?x "67 / 5" "VStr ''W''" "853 / 25"]
    by (simp add: example_gps_getitem example_gps_alt sexagesimal_len x y)
  have X: "convert_gpstag (\<lambda>v. v) (TiffTag ''GPSTag'' (?g (VStr ''X'')))
       = Inl (RuntimeError (GPSLatitudeRef (VStr ''X'')))"
    using convert_gpstag_hemisphere[of "TiffTag ''GPSTag'' (?g (VStr ''X''))" ?y "\<lambda>v. v" "105 / 2"
        "VStr ''X''" ?x "67 / 5" "VStr ''W''" "853 / 25"]
    by (simp add: example_gps_getitem sexagesimal_len y)
  from S X show ?thesis by blast
qed

text \<open>
  A group can pass the datum, shape and range checks with the references \<^verbatim>\<open>'N'\<close>
  and \<^verbatim>\<open>'E'\<close> and still return no coordinate: with the altitude reference 1 the
  decoder raises after the longitude is accepted.
\<close>

theorem convert_gpstag_hemisphere_counterexample:
  "dms (\<lambda>v. v) (sexagesimal 52 30 0) = Inr (105 / 2)
   \<and> dms (\<lambda>v. v) (sexagesimal 13 24 0) = Inr (67 / 5)
   \<and> convert_gpstag (\<lambda>v. v) (TiffTag ''GPSTag'' example_gps_below)
       = Inl (RuntimeError (GPSAltitudeRef (VInt 1)))"
  by (simp add: convert_gpstag_def gps_lat_def gps_lon_def gps_alt_def example_gps_below_getitem
      sexagesimal_len sexagesimal_dms)

lemma gps_lat_range:
  assumes "getitem gps ''GPSLatitude'' = Inr y" "py_len y = Inr 6" "dms rnd y = Inr la" "la > 90"
  shows "gps_lat rnd gps = Inl (RuntimeError (GPSLatitude y))"
  using assms by (simp add: gps_lat_def)

lemma gps_lon_range:
  assumes "getitem gps ''GPSLongitude'' = Inr x" "py_len x = Inr 6" "dms rnd x = Inr lo" "lo > 180"
  shows "gps_lon rnd gps = Inl (RuntimeError (GPSLongitude x))"
  using assms by (simp add: gps_lon_def)

text \<open>
  Claim C2, as amended. For a GPS group that passes the datum check, a decoded
  latitude magnitude above 90 is rejected with the latitude range error whatever
  the two hemisphere references are, present or not: the check comes before
  the reference is read. A decoded longitude magnitude above 180 is rejected
  with the longitude range error whatever the longitude reference is, provided
  the latitude part was accepted, which includes its reference being \<^verbatim>\<open>'N'\<close> or \<^verbatim>\<open>'S'\<close>.
\<close>

theorem convert_gpstag_range:
  assumes "tag_name tag = ''GPSTag''"
    and "getitem (tag_value tag) ''GPSMapDatum'' = Inr (VStr ''WGS-84'')"
  shows "(getitem (tag_value tag) ''GPSLatitude'' = Inr y \<and> py_len y = Inr 6 \<and>
          dms rnd y = Inr la \<and> la > 90 \<longrightarrow>
            convert_gpstag rnd tag = Inl (RuntimeError (GPSLatitude y)))
    \<and> (gps_lat rnd (tag_value tag) = Inr v \<and>
        getitem (tag_value tag) ''GPSLongitude'' = Inr x \<and> py_len x = Inr 6 \<and>
        dms rnd x = Inr lo \<and> lo > 180 \<longrightarrow>
            convert_gpstag rnd tag = Inl (RuntimeError (GPSLongitude x)))"
  by (simp add: convert_gpstag_eval[OF assms] gps_lat_range gps_lon_range)

theorem convert_gpstag_range_witness:
  "convert_gpstag (\<lambda>v. v) (TiffTag ''GPSTag''
      (example_gps (sexagesimal 91 0 0) (VStr ''X'') (sexagesimal 13 24 0) (VStr ''E'')))
     = Inl (RuntimeError (GPSLatitude (sexagesimal 91 0 0)))
   \<and> convert_gpstag (\<lambda>v. v) (TiffTag ''GPSTag''
      (example_gps (sexagesimal 52 30 0) (VStr ''S'') (sexagesimal 200 0 0) (VStr ''X'')))
     = Inl (RuntimeError (GPSLongitude (sexagesimal 200 0 0)))"
proof -
  let ?g1 = "example_gps (sexagesimal 91 0 0) (VStr ''X'') (sexagesimal 13 24 0) (VStr ''E'')"
  let ?g2 = "example_gps (sexagesimal 52 30 0) (VStr ''S'') (sexagesimal 200 0 0) (VStr ''X'')"
  have l: "gps_lat (\<lambda>v. v) ?g2 = Inr (- (105 / 2))"
    by (simp add: gps_lat_def example_gps_getitem sexagesimal_len sexagesimal_dms)
  have A: "convert_gpstag (\<lambda>v. v) (TiffTag ''GPSTag'' ?g1)
     = Inl (RuntimeError (GPSLatitude (sexagesimal 91 0 0)))"
    using convert_gpstag_range[of "TiffTag ''GPSTag'' ?g1" "sexagesimal 91 0 0" "\<lambda>v. v" 91]
    by (simp add: example_gps_getitem sexagesimal_len sexagesimal_dms)
  have B: "convert_gpstag (\<lambda>v. v) (TiffTag ''GPSTag'' ?g2)
     = Inl (RuntimeError (GPSLongitude (sexagesimal 200 0 0)))"
    using convert_gpstag_range[of "TiffTag ''GPSTag'' ?g2" _ "\<lambda>v. v" _ "- (105 / 2)" "sexagesimal 200 0 0" 200]
    by (simp add: example_gps_getitem sexagesimal_len sexagesimal_dms l)
  from A B show ?thesis by blast
qed

text \<open>
  The longitude range check comes after the latitude reference check: a group
  whose longitude decodes to 200 degrees and whose latitude reference is \<^verbatim>\<open>'X'\<close>
  is rejected for the reference, not for the range.
\<close>

theorem convert_gpstag_range_counterexample:
  "dms (\<lambda>v. v) (sexagesimal 200 0 0) = Inr 200
   \<and> convert_gpstag (\<lambda>v. v) (TiffTag ''GPSTag''
        (example_gps (sexagesimal 52 30 0) (VStr ''X'') (sexagesimal 200 0 0) (VStr ''E'')))
       = Inl (RuntimeError (GPSLatitudeRef (VStr ''X'')))"
  by (simp add: convert_gpstag_def gps_lat_def example_gps_getitem sexagesimal_len sexagesimal_dms)

subsection \<open>Unchecked sequence lengths and denominators\<close>

lemma length6: "length xs = 6 \<Longrightarrow> \<exists>a b c d e f. xs = [a, b, c, d, e, f]"
  by (auto simp: length_Suc_conv eval_nat_numeral)

lemma is_int_D: "is_int v \<Longrightarrow> \<exists>a. v = VInt a"
  by (cases v) simp_all

lemma int_tuple6:
  assumes "int_tuple y" "py_len y = Inr 6"
  obtains a b c d e f where "y = VTuple [VInt a, VInt b, VInt c, VInt d, VInt e, VInt f]"
proof -
  from assms obtain xs where y: "y = VTuple xs" and l: "length xs = 6" and a: "list_all is_int xs"
    by (cases y) auto
  from length6[OF l] obtain a b c d e f where xs: "xs = [a, b, c, d, e, f]" by blast
  with a have i: "is_int a" "is_int b" "is_int c" "is_int d" "is_int e" "is_int f" by simp_all
  obtain a' b' c' where "a = VInt a'" "b = VInt b'" "c = VInt c'"
    using i(1-3) by (blast dest: is_int_D)
  moreover obtain d' e' f' where "d = VInt d'" "e = VInt e'" "f = VInt f'"
    using i(4-6) by (blast dest: is_int_D)
  ultimately have "a = VInt a'" "b = VInt b'" "c = VInt c'" "d = VInt d'" "e = VInt e'" "f = VInt f'"
    by simp_all
  with xs y show ?thesis using that by simp
qed

lemma truediv_Inr: "truediv rnd (VInt a) (VInt b) = Inr v \<Longrightarrow> b \<noteq> 0"
  by (simp split: if_splits)

lemma truediv_fits:
  "b = 0 \<or> \<bar>rnd (of_int a / of_int b)\<bar> \<le> float_max \<Longrightarrow>
   truediv rnd (VInt a) (VInt b) =
     (if b = 0 then Inl ZeroDivisionError else Inr (rnd (of_int a / of_int b)))"
  by auto

lemma dms_Inr_ok:
  assumes "int_tuple y" "py_len y = Inr 6" "dms rnd y = Inr v"
  shows "denominators_ok y"
proof -
  from assms(1,2) obtain a b c d e f where y: "y = VTuple [VInt a, VInt b, VInt c, VInt d, VInt e, VInt f]"
    by (rule int_tuple6)
  from assms(3) obtain q1 q2 q3 where "truediv rnd (VInt a) (VInt b) = Inr q1"
    "truediv rnd (VInt c) (VInt d) = Inr q2" "truediv rnd (VInt e) (VInt f) = Inr q3"
    unfolding y dms_def Let_def by (auto simp add: bindE_eq_Inr simp del: truediv.simps)
  then have "b \<noteq> 0" "d \<noteq> 0" "f \<noteq> 0" by (blast dest: truediv_Inr)+
  with y show ?thesis by (simp add: denominators_ok_def)
qed

lemma dms_zero_denominator:
  assumes "int_tuple y" "py_len y = Inr 6" "\<not> denominators_ok y" "quotients_fit rnd y"
  shows "dms rnd y = Inl ZeroDivisionError"
proof -
  from assms(1,2) obtain a b c d e f where y: "y = VTuple [VInt a, VInt b, VInt c, VInt d, VInt e, VInt f]"
    by (rule int_tuple6)
  from assms(4) y have
    "b = 0 \<or> \<bar>rnd (of_int a / of_int b)\<bar> \<le> float_max"
    "d = 0 \<or> \<bar>rnd (of_int c / of_int d)\<bar> \<le> float_max"
    "f = 0 \<or> \<bar>rnd (of_int e / of_int f)\<bar> \<le> float_max"
    by (simp_all add: quotients_fit_def)
  then have t: "truediv rnd (VInt a) (VInt b) =
       (if b = 0 then Inl ZeroDivisionError else Inr (rnd (of_int a / of_int b)))"
    "truediv rnd (VInt c) (VInt d) =
       (if d = 0 then Inl ZeroDivisionError else Inr (rnd (of_int c / of_int d)))"
    "truediv rnd (VInt e) (VInt f) =
       (if f = 0 then Inl ZeroDivisionError else Inr (rnd (of_int e / of_int f)))"
    by (simp_all only: truediv_fits)
  from assms(3) y have "b = 0 \<or> d = 0 \<or> f = 0" by (simp add: denominators_ok_def)
  then show ?thesis
    unfolding y dms_def Let_def by (auto simp add: t simp del: truediv.simps)
qed

lemma alt_int_tuple:
  assumes "int_tuple z"
  shows "(py_len z = Inr 0 \<or> py_len z = Inr 1 \<longrightarrow>
            bindE (index z 0) (\<lambda>z0. bindE (index z 1) (\<lambda>z1. truediv rnd z0 z1)) = Inl IndexError)
     \<and> (py_len z \<noteq> Inr 0 \<and> py_len z \<noteq> Inr 1 \<and> zero_at z 1 \<longrightarrow>
            bindE (index z 0) (\<lambda>z0. bindE (index z 1) (\<lambda>z1. truediv rnd z0 z1)) = Inl ZeroDivisionError)
     \<and> (bindE (index z 0) (\<lambda>z0. bindE (index z 1) (\<lambda>z1. truediv rnd z0 z1)) = Inr v \<longrightarrow>
            altitude_ok z)"
proof -
  from assms obtain zs where z: "z = VTuple zs" and a: "list_all is_int zs"
    by (cases z) auto
  show ?thesis
  proof (cases zs)
    case Nil
    with z show ?thesis by (simp add: altitude_ok_def)
  next
    case (Cons u us)
    note c1 = this
    show ?thesis
    proof (cases us)
      case Nil
      with c1 z show ?thesis by (simp add: altitude_ok_def)
    next
      case (Cons w ws)
      with c1 a have "is_int u" "is_int w" by simp_all
      then obtain p q where "u = VInt p" "w = VInt q"
        by (blast dest: is_int_D)
      with c1 Cons z show ?thesis by (simp add: altitude_ok_def)
    qed
  qed
qed

lemma gps_alt_int_tuple:
  assumes "getitem gps ''GPSAltitudeRef'' = Inr r" "eq_int r 0"
    "getitem gps ''GPSAltitude'' = Inr z" "int_tuple z"
  shows "(py_len z = Inr 0 \<or> py_len z = Inr 1 \<longrightarrow> gps_alt rnd gps = Inl IndexError)
     \<and> (py_len z \<noteq> Inr 0 \<and> py_len z \<noteq> Inr 1 \<and> zero_at z 1 \<longrightarrow> gps_alt rnd gps = Inl ZeroDivisionError)"
  using assms(1-3) alt_int_tuple[OF assms(4), of rnd]
  by (simp add: gps_alt_def)

lemma gps_lat_Inr:
  assumes "gps_lat rnd gps = Inr v" "getitem gps ''GPSLatitude'' = Inr y"
  shows "py_len y = Inr 6 \<and> (\<exists>la. dms rnd y = Inr la)"
  using assms by (auto simp add: gps_lat_def bindE_eq_Inr split: if_splits)

lemma gps_lon_Inr:
  assumes "gps_lon rnd gps = Inr v" "getitem gps ''GPSLongitude'' = Inr x"
  shows "py_len x = Inr 6 \<and> (\<exists>lo. dms rnd x = Inr lo)"
  using assms by (auto simp add: gps_lon_def bindE_eq_Inr split: if_splits)

lemma gps_alt_Inr:
  assumes "gps_alt rnd gps = Inr v" "getitem gps ''GPSAltitude'' = Inr z" "int_tuple z"
  shows "altitude_ok z"
proof -
  from assms(1,2) have "bindE (index z 0) (\<lambda>z0. bindE (index z 1) (\<lambda>z1. truediv rnd z0 z1)) = Inr v"
    by (auto simp add: gps_alt_def bindE_eq_Inr split: if_splits)
  with alt_int_tuple[OF assms(3), of rnd v] show ?thesis by blast
qed

text \<open>
  Claim C10, as amended. The decoder checks neither the length of the altitude
  sequence nor any denominator. For a GPS group whose three sequences are tuples
  of integers: a coordinate is returned only if every denominator of the
  latitude, longitude and altitude is nonzero and the altitude has at least
  two elements; and a group violating that which passes every check made before
  the offending operation, and in which no quotient taken before it overflows,
  fails there with the interpreter's \<^verbatim>\<open>ZeroDivisionError\<close> or \<^verbatim>\<open>IndexError\<close>.
\<close>

theorem convert_gpstag_unchecked:
  assumes "tag_name tag = ''GPSTag''"
    and "getitem (tag_value tag) ''GPSLatitude'' = Inr y" and "int_tuple y"
    and "getitem (tag_value tag) ''GPSLongitude'' = Inr x" and "int_tuple x"
    and "getitem (tag_value tag) ''GPSAltitude'' = Inr z" and "int_tuple z"
  shows "(convert_gpstag rnd tag = Inr c \<longrightarrow>
            denominators_ok y \<and> denominators_ok x \<and> altitude_ok z)
    \<and> (getitem (tag_value tag) ''GPSMapDatum'' = Inr (VStr ''WGS-84'') \<longrightarrow>
         (py_len y = Inr 6 \<and> \<not> denominators_ok y \<and> quotients_fit rnd y \<longrightarrow>
            convert_gpstag rnd tag = Inl ZeroDivisionError)
       \<and> (gps_lat rnd (tag_value tag) = Inr la \<and> py_len x = Inr 6 \<and> \<not> denominators_ok x \<and>
          quotients_fit rnd x \<longrightarrow>
            convert_gpstag rnd tag = Inl ZeroDivisionError)
       \<and> (gps_lat rnd (tag_value tag) = Inr la \<and> gps_lon rnd (tag_value tag) = Inr lo \<and>
          getitem (tag_value tag) ''GPSAltitudeRef'' = Inr r3 \<and> eq_int r3 0 \<and> \<not> altitude_ok z \<longrightarrow>
            convert_gpstag rnd tag = Inl IndexError \<or>
            convert_gpstag rnd tag = Inl ZeroDivisionError))"
proof -
  let ?g = "tag_value tag"
  have A: "denominators_ok y \<and> denominators_ok x \<and> altitude_ok z"
    if "convert_gpstag rnd tag = Inr c"
  proof -
    from convert_gpstag_Inr[OF that] have
      r: "gps_lat rnd ?g = Inr (lat c)" "gps_lon rnd ?g = Inr (lon c)" "gps_alt rnd ?g = Inr (alt c)"
      by simp_all
    from gps_lat_Inr[OF r(1) assms(2)] have "denominators_ok y"
      using dms_Inr_ok[OF assms(3)] by blast
    moreover from gps_lon_Inr[OF r(2) assms(4)] have "denominators_ok x"
      using dms_Inr_ok[OF assms(5)] by blast
    moreover have "altitude_ok z" by (rule gps_alt_Inr[OF r(3) assms(6,7)])
    ultimately show ?thesis by simp
  qed
  have C: "convert_gpstag rnd tag = Inl ZeroDivisionError"
    if "getitem ?g ''GPSMapDatum'' = Inr (VStr ''WGS-84'')" "py_len y = Inr 6"
      "\<not> denominators_ok y" "quotients_fit rnd y"
  proof -
    from dms_zero_denominator[OF assms(3) that(2,3,4)]
    have "dms rnd y = Inl ZeroDivisionError" .
    with assms(2) that(2) have "gps_lat rnd ?g = Inl ZeroDivisionError"
      by (simp add: gps_lat_def)
    then show ?thesis by (simp add: convert_gpstag_eval[OF assms(1) that(1)])
  qed
  have D: "convert_gpstag rnd tag = Inl ZeroDivisionError"
    if "getitem ?g ''GPSMapDatum'' = Inr (VStr ''WGS-84'')" "gps_lat rnd ?g = Inr la"
      "py_len x = Inr 6" "\<not> denominators_ok x" "quotients_fit rnd x"
  proof -
    from dms_zero_denominator[OF assms(5) that(3,4,5)]
    have "dms rnd x = Inl ZeroDivisionError" .
    with assms(4) that(3) have "gps_lon rnd ?g = Inl ZeroDivisionError"
      by (simp add: gps_lon_def)
    with that(2) show ?thesis by (simp add: convert_gpstag_eval[OF assms(1) that(1)])
  qed
  have E: "convert_gpstag rnd tag = Inl IndexError \<or> convert_gpstag rnd tag = Inl ZeroDivisionError"
    if "getitem ?g ''GPSMapDatum'' = Inr (VStr ''WGS-84'')" "gps_lat rnd ?g = Inr la"
      "gps_lon rnd ?g = Inr lo" "getitem ?g ''GPSAltitudeRef'' = Inr r3" "eq_int r3 0"
      "\<not> altitude_ok z"
  proof -
    from gps_alt_int_tuple[OF that(4,5) assms(6,7), of rnd] that(6)
    have "gps_alt rnd ?g = Inl IndexError \<or> gps_alt rnd ?g = Inl ZeroDivisionError"
      by (auto simp add: altitude_ok_def)
    with that(2,3) show ?thesis by (auto simp add: convert_gpstag_eval[OF assms(1) that(1)])
  qed
  from A C D E show ?thesis by blast
qed

lemma example_gps_short_getitem:
  "getitem example_gps_short ''GPSMapDatum'' = Inr (VStr ''WGS-84'')"
  "getitem example_gps_short ''GPSLatitude'' = Inr (sexagesimal 52 30 0)"
  "getitem example_gps_short ''GPSLatitudeRef'' = Inr (VStr ''N'')"
  "getitem example_gps_short ''GPSLongitude'' = Inr (sexagesimal 13 24 0)"
  "getitem example_gps_short ''GPSLongitudeRef'' = Inr (VStr ''E'')"
  "getitem example_gps_short ''GPSAltitudeRef'' = Inr (VInt 0)"
  "getitem example_gps_short ''GPSAltitude'' = Inr (VTuple [VInt 3412])"
  by (simp_all add: example_gps_short_def)

lemma sexagesimal_int_tuple: "int_tuple (sexagesimal d m s)" "denominators_ok (sexagesimal d m s)"
  by (simp_all add: sexagesimal_def denominators_ok_def)

theorem convert_gpstag_unchecked_witness:
  "denominators_ok (sexagesimal 52 30 0) \<and> denominators_ok (sexagesimal 13 24 0)
   \<and> altitude_ok (VTuple [VInt 3412, VInt 100])
   \<and> convert_gpstag (\<lambda>v. v) (TiffTag ''GPSTag''
        (example_gps (VTuple [VInt 52, VInt 1, VInt 30, VInt 0, VInt 0, VInt 100]) (VStr ''N'')
           (sexagesimal 13 24 0) (VStr ''E''))) = Inl ZeroDivisionError
   \<and> (convert_gpstag (\<lambda>v. v) (TiffTag ''GPSTag'' example_gps_short) = Inl IndexError
      \<or> convert_gpstag (\<lambda>v. v) (TiffTag ''GPSTag'' example_gps_short) = Inl ZeroDivisionError)"
proof -
  let ?y0 = "VTuple [VInt 52, VInt 1, VInt 30, VInt 0, VInt 0, VInt 100]"
  let ?z = "VTuple [VInt 3412, VInt 100]"
  let ?t1 = "TiffTag ''GPSTag''
        (example_gps (sexagesimal 52 30 0) (VStr ''N'') (sexagesimal 13 24 0) (VStr ''E''))"
  let ?t2 = "TiffTag ''GPSTag'' (example_gps ?y0 (VStr ''N'') (sexagesimal 13 24 0) (VStr ''E''))"
  let ?t3 = "TiffTag ''GPSTag'' example_gps_short"
  have z: "int_tuple ?z" by simp
  have c1: "convert_gpstag (\<lambda>v. v) ?t1 = Inr \<lparr>lat = 105 / 2, lon = 67 / 5, alt = 853 / 25\<rparr>"
    by (simp add: convert_gpstag_def gps_lat_def gps_lon_def example_gps_getitem example_gps_alt
        sexagesimal_len sexagesimal_dms)
  have P1: "denominators_ok (sexagesimal 52 30 0) \<and> denominators_ok (sexagesimal 13 24 0)
     \<and> altitude_ok ?z"
    using convert_gpstag_unchecked[of ?t1 "sexagesimal 52 30 0" "sexagesimal 13 24 0" ?z
        "\<lambda>v. v" "\<lparr>lat = 105 / 2, lon = 67 / 5, alt = 853 / 25\<rparr>"]
    by (simp add: example_gps_getitem sexagesimal_int_tuple z c1)
  have f: "quotients_fit (\<lambda>v. v) ?y0"
    using float_max_num by (simp add: quotients_fit_def)
  have P2: "convert_gpstag (\<lambda>v. v) ?t2 = Inl ZeroDivisionError"
    using convert_gpstag_unchecked[of ?t2 ?y0 "sexagesimal 13 24 0" ?z "\<lambda>v. v"]
    by (simp add: example_gps_getitem sexagesimal_int_tuple denominators_ok_def f)
  have l: "gps_lat (\<lambda>v. v) example_gps_short = Inr (105 / 2)"
    "gps_lon (\<lambda>v. v) example_gps_short = Inr (67 / 5)"
    by (simp_all add: gps_lat_def gps_lon_def example_gps_short_getitem sexagesimal_len sexagesimal_dms)
  have P3: "convert_gpstag (\<lambda>v. v) ?t3 = Inl IndexError
      \<or> convert_gpstag (\<lambda>v. v) ?t3 = Inl ZeroDivisionError"
    using convert_gpstag_unchecked[of ?t3 "sexagesimal 52 30 0" "sexagesimal 13 24 0" "VTuple [VInt 3412]"
        "\<lambda>v. v" _ "105 / 2" "67 / 5" "VInt 0"]
    by (simp add: example_gps_short_getitem sexagesimal_int_tuple l altitude_ok_def)
  from P1 P2 P3 show ?thesis by blast
qed

text \<open>
  A group that violates the precondition need not reach the unguarded
  operation: with a latitude of 91 degrees and zero denominators in the
  longitude, the decoder stops at the latitude range check.
\<close>

theorem convert_gpstag_unchecked_counterexample:
  "\<not> denominators_ok (VTuple [VInt 13, VInt 0, VInt 24, VInt 0, VInt 0, VInt 0])
   \<and> convert_gpstag (\<lambda>v. v) (TiffTag ''GPSTag''
        (example_gps (sexagesimal 91 0 0) (VStr ''N'')
           (VTuple [VInt 13, VInt 0, VInt 24, VInt 0, VInt 0, VInt 0]) (VStr ''E'')))
       = Inl (RuntimeError (GPSLatitude (sexagesimal 91 0 0)))"
  by (simp add: denominators_ok_def convert_gpstag_def gps_lat_def example_gps_getitem
      sexagesimal_len sexagesimal_dms)

section \<open>Properties of the normalizer and the assembler\<close>

lemma seq_simps [simp]:
  "seq (ps, None) h = (ps @ fst h, snd h)"
  "seq (ps, Some e) h = (ps, Some e)"
  "seq (raise e) h = raise e"
  by (simp_all add: seq_def raise_def)

lemma seq_None: "seq g h = (qs, None) \<longleftrightarrow> snd g = None \<and> snd h = None \<and> qs = fst g @ fst h"
  by (cases g; cases h) (auto simp add: seq_def split: option.splits)

lemma seq_fst_snd: "snd g = None \<Longrightarrow> seq g h = (fst g @ fst h, snd h)"
  by (simp add: seq_def)

subsection \<open>Repeated keys\<close>

lemma assemble_repeated:
  assumes "distinct (map fst (atts @ xs))" "map_of (atts @ xs) k = Some v1"
  shows "assemble atts (xs @ (k, v2) # rest) = Inl (KeyExists k v1 v2)"
  using assms
proof (induction xs arbitrary: atts)
  case Nil
  then show ?case by simp
next
  case (Cons p xs)
  obtain a b where p: "p = (a, b)" by (cases p)
  from Cons.prems(1) p have "a \<notin> fst ` set atts" by auto
  then have n: "map_of atts a = None" by (simp add: map_of_eq_None_iff)
  have "assemble (atts @ [(a, b)]) (xs @ (k, v2) # rest) = Inl (KeyExists k v1 v2)"
    using Cons.prems p by (intro Cons.IH) simp_all
  with n p show ?case by simp
qed

lemma assemble_Inr:
  assumes "assemble atts ps = Inr m" "distinct (map fst atts)"
  shows "m = atts @ ps" and "distinct (map fst m)"
  using assms
proof (induction ps arbitrary: atts)
  case Nil
  {
    case 1 then show ?case by simp
  next
    case 2 then show ?case by simp
  }
next
  case (Cons p ps)
  obtain a b where p: "p = (a, b)" by (cases p)
  {
    case 1
    with p have n: "map_of atts a = None" and r: "assemble (atts @ [(a, b)]) ps = Inr m"
      by (simp_all split: option.splits)
    from n have "a \<notin> fst ` set atts" by (simp add: map_of_eq_None_iff)
    with 1 have "distinct (map fst (atts @ [(a, b)]))" by simp
    from Cons.IH(1)[OF r this] p show ?case by simp
  next
    case 2
    with p have n: "map_of atts a = None" and r: "assemble (atts @ [(a, b)]) ps = Inr m"
      by (simp_all split: option.splits)
    from n have "a \<notin> fst ` set atts" by (simp add: map_of_eq_None_iff)
    with 2 have "distinct (map fst (atts @ [(a, b)]))" by simp
    from Cons.IH(2)[OF r this] show ?case .
  }
qed

lemma assemble_distinct:
  assumes "distinct (map fst (atts @ ps))"
  shows "assemble atts ps = Inr (atts @ ps)"
  using assms
proof (induction ps arbitrary: atts)
  case Nil
  then show ?case by simp
next
  case (Cons p ps)
  obtain a b where p: "p = (a, b)" by (cases p)
  from Cons.prems p have "a \<notin> fst ` set atts" by auto
  then have n: "map_of atts a = None" by (simp add: map_of_eq_None_iff)
  have "assemble (atts @ [(a, b)]) ps = Inr ((atts @ [(a, b)]) @ ps)"
    using Cons.prems p by (intro Cons.IH) simp
  with n p show ?case by simp
qed

lemma setitem_keys: "map_of d k \<noteq> None \<Longrightarrow> map fst (setitem d k v) = map fst d"
  by (induction d) (auto split: if_splits)

lemma map_of_setitem: "map_of (setitem d k v) k' = (if k' = k then Some v else map_of d k')"
  by (induction d) auto

lemma fixup_datetime_keeps:
  assumes "fixup_datetime strptime atts = Inr atts'"
  shows "map fst atts' = map fst atts
     \<and> (\<forall>k. k \<noteq> ''DateTimeOriginal'' \<longrightarrow> map_of atts' k = map_of atts k)"
proof (cases "map_of atts ''DateTimeOriginal''")
  case None
  with assms show ?thesis by (simp add: fixup_datetime_def)
next
  case (Some s)
  with assms obtain dt where "atts' = setitem atts ''DateTimeOriginal'' (VDateTime dt)"
    by (auto simp add: fixup_datetime_def bindE_eq_Inr)
  with Some show ?thesis by (simp add: setitem_keys map_of_setitem)
qed

lemma pageprops_Inr:
  assumes "pageprops fromstring rnd strptime page = Inr atts"
  shows "snd (page_tagconv_it fromstring rnd page) = None
     \<and> distinct (map fst (fst (page_tagconv_it fromstring rnd page)))
     \<and> fixup_datetime strptime (fst (page_tagconv_it fromstring rnd page)) = Inr atts"
proof -
  let ?g = "page_tagconv_it fromstring rnd page"
  from assms obtain m where m: "assemble [] (fst ?g) = Inr m"
    and r: "(case snd ?g of Some e \<Rightarrow> Inl e | None \<Rightarrow> fixup_datetime strptime m) = Inr atts"
    by (auto simp add: pageprops_def Let_def bindE_eq_Inr)
  from assemble_Inr[OF m] have "m = fst ?g" "distinct (map fst m)" by simp_all
  with r show ?thesis by (simp split: option.splits)
qed

lemma pageprops_complete:
  assumes "page_tagconv_it fromstring rnd page = (ps, None)" "distinct (map fst ps)"
  shows "pageprops fromstring rnd strptime page = fixup_datetime strptime ps"
  using assms assemble_distinct[of "[]" ps] by (simp add: pageprops_def)

text \<open>
  Claim C3. When the pairs of the normalizer repeat a key, \<^verbatim>\<open>pageprops\<close> raises the
  \<^verbatim>\<open>KeyError\<close> that names the key, the value stored first and the value that came
  second, at the first such pair: whatever the normalizer would yield or raise
  after it plays no part. When \<^verbatim>\<open>pageprops\<close> returns, no key was repeated, the map
  has the keys of the pairs in their order, and every key but the rewritten
  \<^verbatim>\<open>DateTimeOriginal\<close> has the one value that was yielded for it.
\<close>

theorem pageprops_duplicate_key:
  "(fst (page_tagconv_it fromstring rnd page) = xs @ (k, v2) # rest \<and>
    distinct (map fst xs) \<and> map_of xs k = Some v1 \<longrightarrow>
      pageprops fromstring rnd strptime page = Inl (KeyExists k v1 v2))
   \<and> (pageprops fromstring rnd strptime page = Inr atts \<longrightarrow>
        distinct (map fst (fst (page_tagconv_it fromstring rnd page)))
        \<and> map fst atts = map fst (fst (page_tagconv_it fromstring rnd page))
        \<and> (\<forall>k' v. (k', v) \<in> set (fst (page_tagconv_it fromstring rnd page)) \<and>
              k' \<noteq> ''DateTimeOriginal'' \<longrightarrow> map_of atts k' = Some v))"
proof -
  let ?g = "page_tagconv_it fromstring rnd page"
  have A: "pageprops fromstring rnd strptime page = Inl (KeyExists k v1 v2)"
    if "fst ?g = xs @ (k, v2) # rest" "distinct (map fst xs)" "map_of xs k = Some v1"
    using that assemble_repeated[of "[]" xs k v1 v2 rest]
    by (simp add: pageprops_def)
  have B: "distinct (map fst (fst ?g)) \<and> map fst atts = map fst (fst ?g)
        \<and> (\<forall>k' v. (k', v) \<in> set (fst ?g) \<and> k' \<noteq> ''DateTimeOriginal'' \<longrightarrow> map_of atts k' = Some v)"
    if "pageprops fromstring rnd strptime page = Inr atts"
  proof -
    from pageprops_Inr[OF that] have d: "distinct (map fst (fst ?g))"
      and f: "fixup_datetime strptime (fst ?g) = Inr atts" by simp_all
    from fixup_datetime_keeps[OF f] d show ?thesis by auto
  qed
  from A B show ?thesis by blast
qed

lemma example_page_tag:
  "page_tag (example_page ts) ''Make'' = Inr (TiffTag ''Make'' (VStr ''DJI''))"
  "page_tag (example_page ts) ''Model'' = Inr (TiffTag ''Model'' (VStr ''XT2''))"
  "page_tag (example_page ts) ''GPSTag'' =
     (case find (\<lambda>t. tag_name t = ''GPSTag'') ts of None \<Rightarrow> Inl (KeyError ''GPSTag'') | Some t \<Rightarrow> Inr t)"
  by (simp_all add: page_tag_def example_page_def)

lemma example_page_tags_it:
  "tags_it fromstring (tags (example_page ts)) =
     seq ([(''Make'', VStr ''DJI''), (''Model'', VStr ''XT2'')], None) (tags_it fromstring ts)"
  by (simp add: example_page_def tag_it_def seq_def)

theorem pageprops_duplicate_key_witness:
  "pageprops (\<lambda>s. None) (\<lambda>v. v) strptime_padded
      (example_page [TiffTag ''ExifTag'' (VDict [(''ISO'', VInt 100), (''Make'', VBytes ''dji'')]),
                     TiffTag ''Software'' (VStr ''V1'')])
     = Inl (KeyExists ''Make'' (VStr ''DJI'') (VStr ''dji''))
   \<and> distinct (map fst (fst (page_tagconv_it (\<lambda>s. None) (\<lambda>v. v)
        (example_page [TiffTag ''Software'' (VStr ''V1'')]))))"
proof -
  let ?p1 = "example_page [TiffTag ''ExifTag'' (VDict [(''ISO'', VInt 100), (''Make'', VBytes ''dji'')]),
                     TiffTag ''Software'' (VStr ''V1'')]"
  let ?p2 = "example_page [TiffTag ''Software'' (VStr ''V1'')]"
  have g1: "fst (page_tagconv_it (\<lambda>s. None) (\<lambda>v. v) ?p1) =
      [(''Make'', VStr ''DJI''), (''Model'', VStr ''XT2''), (''ISO'', VInt 100)]
        @ (''Make'', VStr ''dji'') # [(''Software'', VStr ''V1'')]"
    by (simp add: page_tagconv_it_def example_page_tag example_page_tags_it tag_it_def
        decode_ascii_def seq_def)
  have p2: "pageprops (\<lambda>s. None) (\<lambda>v. v) strptime_padded ?p2
      = Inr [(''Make'', VStr ''DJI''), (''Model'', VStr ''XT2''), (''Software'', VStr ''V1'')]"
    by (simp add: pageprops_def page_tagconv_it_def example_page_tag example_page_tags_it tag_it_def
        seq_def fixup_datetime_def)
  from pageprops_duplicate_key[of "\<lambda>s. None" "\<lambda>v. v" ?p1
      "[(''Make'', VStr ''DJI''), (''Model'', VStr ''XT2''), (''ISO'', VInt 100)]"
      "''Make''" "VStr ''dji''" "[(''Software'', VStr ''V1'')]" "VStr ''DJI''" strptime_padded]
    g1
  have A: "pageprops (\<lambda>s. None) (\<lambda>v. v) strptime_padded ?p1
     = Inl (KeyExists ''Make'' (VStr ''DJI'') (VStr ''dji''))"
    by simp
  from pageprops_duplicate_key[of "\<lambda>s. None" "\<lambda>v. v" ?p2 _ _ _ _ _ strptime_padded
      "[(''Make'', VStr ''DJI''), (''Model'', VStr ''XT2''), (''Software'', VStr ''V1'')]"] p2
  have B: "distinct (map fst (fst (page_tagconv_it (\<lambda>s. None) (\<lambda>v. v) ?p2)))"
    by blast
  from A B show ?thesis by blast
qed

subsection \<open>The GPS group in the stream\<close>

lemma dict_it_None:
  "dict_it d = (ps, None) \<Longrightarrow>
   ps = map (\<lambda>(k, v). (k, case v of VBytes b \<Rightarrow> VStr b | _ \<Rightarrow> v)) d"
proof (induction d arbitrary: ps)
  case Nil
  then show ?case by simp
next
  case (Cons p d)
  obtain k v where p: "p = (k, v)" by (cases p)
  show ?case
  proof (cases "\<exists>b. v = VBytes b")
    case True
    then obtain b where v: "v = VBytes b" by blast
    with Cons.prems p obtain s where s: "decode_ascii b = Inr s"
      and r: "seq ([(k, VStr s)], None) (dict_it d) = (ps, None)"
      by (cases "decode_ascii b") (simp_all add: raise_def)
    from s have sb: "s = b" by (simp add: decode_ascii_def split: if_splits)
    from r have "snd (dict_it d) = None" "ps = (k, VStr s) # fst (dict_it d)"
      by (simp_all add: seq_None)
    moreover then have "dict_it d = (fst (dict_it d), None)" by (metis prod.collapse)
    ultimately show ?thesis using Cons.IH p v sb by simp
  next
    case False
    with Cons.prems p have r: "seq ([(k, v)], None) (dict_it d) = (ps, None)"
      by (cases v) simp_all
    then have "snd (dict_it d) = None" "ps = (k, v) # fst (dict_it d)"
      by (simp_all add: seq_None)
    moreover then have "dict_it d = (fst (dict_it d), None)" by (metis prod.collapse)
    ultimately show ?thesis using Cons.IH p False by (cases v) simp_all
  qed
qed

lemma tags_it_None:
  assumes "tags_it fromstring ts = (qs, None)" "t \<in> set ts"
  shows "snd (tag_it fromstring t) = None \<and> set (fst (tag_it fromstring t)) \<subseteq> set qs"
  using assms
proof (induction ts arbitrary: qs)
  case Nil
  then show ?case by simp
next
  case (Cons u ts)
  from Cons.prems(1) have u: "snd (tag_it fromstring u) = None"
    and r: "snd (tags_it fromstring ts) = None"
    and q: "qs = fst (tag_it fromstring u) @ fst (tags_it fromstring ts)"
    by (simp_all add: seq_None)
  show ?case
  proof (cases "t = u")
    case True
    with u q show ?thesis by simp
  next
    case False
    with Cons.prems(2) have "t \<in> set ts" by simp
    moreover from r have "tags_it fromstring ts = (fst (tags_it fromstring ts), None)"
      by (metis prod.collapse)
    ultimately have "snd (tag_it fromstring t) = None \<and>
       set (fst (tag_it fromstring t)) \<subseteq> set (fst (tags_it fromstring ts))"
      by (rule Cons.IH[rotated])
    with q show ?thesis by auto
  qed
qed

lemma page_tag_Inr: "page_tag page n = Inr t \<Longrightarrow> t \<in> set (tags page) \<and> tag_name t = n"
  by (auto simp add: page_tag_def find_Some_iff split: option.splits)

text \<open>
  Claim C9, as amended. On a page of the expected make and model whose GPS tag
  holds a group, the GPS tag takes the nested-group branch of the loop like any
  other group, so when the loop over the tags ends normally its pairs contain
  every entry of the group under its own key (a byte string decoded), and the
  generator goes on after the loop to decode the group: when the decoder
  returns, the pair \<^verbatim>\<open>Coords\<close> follows all the pairs of the loop and ends the
  stream; when it raises, the stream ends with its exception after the pairs of
  the loop and holds no pair \<^verbatim>\<open>Coords\<close>.
\<close>

theorem page_tagconv_it_gps_twice:
  assumes "page_tag page ''Make'' = Inr mk" and "tag_value mk = VStr ''DJI''"
    and "page_tag page ''Model'' = Inr md" and "tag_value md = VStr ''XT2''"
    and "page_tag page ''GPSTag'' = Inr t" and "tag_value t = VDict d"
    and "tags_it fromstring (tags page) = (qs, None)"
  shows "tag_it fromstring t = dict_it d
    \<and> (\<forall>(k, v) \<in> set d. (k, case v of VBytes b \<Rightarrow> VStr b | _ \<Rightarrow> v) \<in> set qs)
    \<and> page_tagconv_it fromstring rnd page =
        (case convert_gpstag rnd t of
           Inl e \<Rightarrow> (qs, Some e)
         | Inr c \<Rightarrow> (qs @ [(''Coords'', VCoords c)], None))"
proof -
  from page_tag_Inr[OF assms(5)] have t: "t \<in> set (tags page)" "tag_name t = ''GPSTag''"
    by simp_all
  from t(2) assms(6) have b: "tag_it fromstring t = dict_it d"
    by (simp add: tag_it_def)
  from tags_it_None[OF assms(7) t(1)] b
  have n: "snd (dict_it d) = None" and s: "set (fst (dict_it d)) \<subseteq> set qs" by simp_all
  from n have "dict_it d = (fst (dict_it d), None)" by (metis prod.collapse)
  from dict_it_None[OF this] s
  have e: "\<forall>(k, v) \<in> set d. (k, case v of VBytes b \<Rightarrow> VStr b | _ \<Rightarrow> v) \<in> set qs"
    by auto
  have "page_tagconv_it fromstring rnd page =
        (case convert_gpstag rnd t of
           Inl e \<Rightarrow> (qs, Some e)
         | Inr c \<Rightarrow> (qs @ [(''Coords'', VCoords c)], None))"
    using assms by (simp add: page_tagconv_it_def raise_def split: sum.splits)
  with b e show ?thesis by blast
qed

theorem page_tagconv_it_gps_twice_witness:
  "page_tagconv_it (\<lambda>s. None) (\<lambda>v. v)
      (example_page [TiffTag ''GPSTag''
         (example_gps (sexagesimal 52 30 0) (VStr ''N'') (sexagesimal 13 24 0) (VBytes ''E'')),
        TiffTag ''Software'' (VStr ''V1'')])
    = ([(''Make'', VStr ''DJI''), (''Model'', VStr ''XT2''),
        (''GPSMapDatum'', VStr ''WGS-84''),
        (''GPSLatitude'', sexagesimal 52 30 0), (''GPSLatitudeRef'', VStr ''N''),
        (''GPSLongitude'', sexagesimal 13 24 0), (''GPSLongitudeRef'', VStr ''E''),
        (''GPSAltitudeRef'', VInt 0), (''GPSAltitude'', VTuple [VInt 3412, VInt 100]),
        (''Software'', VStr ''V1'')],
       Some (RuntimeError (GPSLongitudeRef (VBytes ''E''))))
   \<and> page_tagconv_it (\<lambda>s. None) (\<lambda>v. v)
      (example_page [TiffTag ''GPSTag''
         (example_gps (sexagesimal 52 30 0) (VStr ''N'') (sexagesimal 13 24 0) (VStr ''E''))])
    = ([(''Make'', VStr ''DJI''), (''Model'', VStr ''XT2''),
        (''GPSMapDatum'', VStr ''WGS-84''),
        (''GPSLatitude'', sexagesimal 52 30 0), (''GPSLatitudeRef'', VStr ''N''),
        (''GPSLongitude'', sexagesimal 13 24 0), (''GPSLongitudeRef'', VStr ''E''),
        (''GPSAltitudeRef'', VInt 0), (''GPSAltitude'', VTuple [VInt 3412, VInt 100]),
        (''Coords'', VCoords \<lparr>lat = 105 / 2, lon = 67 / 5, alt = 853 / 25\<rparr>)],
       None)"
proof -
  let ?g1 = "example_gps (sexagesimal 52 30 0) (VStr ''N'') (sexagesimal 13 24 0) (VBytes ''E'')"
  let ?g2 = "example_gps (sexagesimal 52 30 0) (VStr ''N'') (sexagesimal 13 24 0) (VStr ''E'')"
  let ?p1 = "example_page [TiffTag ''GPSTag'' ?g1, TiffTag ''Software'' (VStr ''V1'')]"
  let ?p2 = "example_page [TiffTag ''GPSTag'' ?g2]"
  have c1: "convert_gpstag (\<lambda>v. v) (TiffTag ''GPSTag'' ?g1)
      = Inl (RuntimeError (GPSLongitudeRef (VBytes ''E'')))"
    by (simp add: convert_gpstag_def gps_lat_def gps_lon_def example_gps_getitem
        sexagesimal_len sexagesimal_dms)
  have c2: "convert_gpstag (\<lambda>v. v) (TiffTag ''GPSTag'' ?g2)
      = Inr \<lparr>lat = 105 / 2, lon = 67 / 5, alt = 853 / 25\<rparr>"
    by (simp add: convert_gpstag_def gps_lat_def gps_lon_def example_gps_getitem example_gps_alt
        sexagesimal_len sexagesimal_dms)
  have t1: "tags_it (\<lambda>s. None) (tags ?p1) =
     ([(''Make'', VStr ''DJI''), (''Model'', VStr ''XT2''),
        (''GPSMapDatum'', VStr ''WGS-84''),
        (''GPSLatitude'', sexagesimal 52 30 0), (''GPSLatitudeRef'', VStr ''N''),
        (''GPSLongitude'', sexagesimal 13 24 0), (''GPSLongitudeRef'', VStr ''E''),
        (''GPSAltitudeRef'', VInt 0), (''GPSAltitude'', VTuple [VInt 3412, VInt 100]),
        (''Software'', VStr ''V1'')], None)"
    by (simp add: example_page_tags_it tag_it_def example_gps_def sexagesimal_def
        decode_ascii_def seq_def)
  have t2: "tags_it (\<lambda>s. None) (tags ?p2) =
     ([(''Make'', VStr ''DJI''), (''Model'', VStr ''XT2''),
        (''GPSMapDatum'', VStr ''WGS-84''),
        (''GPSLatitude'', sexagesimal 52 30 0), (''GPSLatitudeRef'', VStr ''N''),
        (''GPSLongitude'', sexagesimal 13 24 0), (''GPSLongitudeRef'', VStr ''E''),
        (''GPSAltitudeRef'', VInt 0), (''GPSAltitude'', VTuple [VInt 3412, VInt 100])], None)"
    by (simp add: example_page_tags_it tag_it_def example_gps_def sexagesimal_def seq_def)
  have v: "tag_value (TiffTag ''GPSTag'' (example_gps y r1 x r2)) = VDict
     [(''GPSMapDatum'', VStr ''WGS-84''),
      (''GPSLatitude'', y), (''GPSLatitudeRef'', r1),
      (''GPSLongitude'', x), (''GPSLongitudeRef'', r2),
      (''GPSAltitudeRef'', VInt 0),
      (''GPSAltitude'', VTuple [VInt 3412, VInt 100])]" for y r1 x r2
    by (simp add: example_gps_def)
  from page_tagconv_it_gps_twice[where page = ?p1 and t = "TiffTag ''GPSTag'' ?g1"
      and rnd = "\<lambda>v. v" and fromstring = "\<lambda>s. None",
      OF example_page_tag(1) _ example_page_tag(2) _ _ v t1]
  have A: "page_tagconv_it (\<lambda>s. None) (\<lambda>v. v) ?p1 = (fst (tags_it (\<lambda>s. None) (tags ?p1)),
       Some (RuntimeError (GPSLongitudeRef (VBytes ''E''))))"
    by (simp add: example_page_tag c1 t1)
  from page_tagconv_it_gps_twice[where page = ?p2 and t = "TiffTag ''GPSTag'' ?g2"
      and rnd = "\<lambda>v. v" and fromstring = "\<lambda>s. None",
      OF example_page_tag(1) _ example_page_tag(2) _ _ v t2]
  have B: "page_tagconv_it (\<lambda>s. None) (\<lambda>v. v) ?p2 = (fst (tags_it (\<lambda>s. None) (tags ?p2))
       @ [(''Coords'', VCoords \<lparr>lat = 105 / 2, lon = 67 / 5, alt = 853 / 25\<rparr>)], None)"
    by (simp add: example_page_tag c2 t2)
  from A B show ?thesis unfolding t1 t2 by simp
qed

text \<open>
  A page with a GPS group need not yield the pair \<^verbatim>\<open>Coords\<close>: a page of another
  make is rejected before any pair, and on a page of the expected camera a
  group with the altitude reference 1 is yielded entry by entry and then
  rejected by the decoder.
\<close>

theorem page_tagconv_it_gps_twice_counterexample:
  "page_tagconv_it (\<lambda>s. None) (\<lambda>v. v)
      (TiffPage [TiffTag ''Make'' (VStr ''FLIR''), TiffTag ''Model'' (VStr ''XT2''),
                 TiffTag ''GPSTag''
                   (example_gps (sexagesimal 52 30 0) (VStr ''N'') (sexagesimal 13 24 0) (VStr ''E''))])
     = ([], Some (RuntimeError (NotDJIXT2 (VStr ''FLIR'') (VStr ''XT2''))))
   \<and> page_tagconv_it (\<lambda>s. None) (\<lambda>v. v) (example_page [TiffTag ''GPSTag'' example_gps_below])
     = ([(''Make'', VStr ''DJI''), (''Model'', VStr ''XT2''),
         (''GPSMapDatum'', VStr ''WGS-84''),
         (''GPSLatitude'', sexagesimal 52 30 0), (''GPSLatitudeRef'', VStr ''N''),
         (''GPSLongitude'', sexagesimal 13 24 0), (''GPSLongitudeRef'', VStr ''E''),
         (''GPSAltitudeRef'', VInt 1), (''GPSAltitude'', VTuple [VInt 3412, VInt 100])],
        Some (RuntimeError (GPSAltitudeRef (VInt 1))))"
proof -
  have c: "convert_gpstag (\<lambda>v. v) (TiffTag ''GPSTag'' example_gps_below)
       = Inl (RuntimeError (GPSAltitudeRef (VInt 1)))"
    by (simp add: convert_gpstag_def gps_lat_def gps_lon_def gps_alt_def example_gps_below_getitem
        sexagesimal_len sexagesimal_dms)
  have t: "tags_it (\<lambda>s. None) (tags (example_page [TiffTag ''GPSTag'' example_gps_below])) =
      ([(''Make'', VStr ''DJI''), (''Model'', VStr ''XT2''),
         (''GPSMapDatum'', VStr ''WGS-84''),
         (''GPSLatitude'', sexagesimal 52 30 0), (''GPSLatitudeRef'', VStr ''N''),
         (''GPSLongitude'', sexagesimal 13 24 0), (''GPSLongitudeRef'', VStr ''E''),
         (''GPSAltitudeRef'', VInt 1), (''GPSAltitude'', VTuple [VInt 3412, VInt 100])], None)"
    by (simp add: example_page_tags_it tag_it_def example_gps_below_def sexagesimal_def seq_def)
  have A: "page_tagconv_it (\<lambda>s. None) (\<lambda>v. v)
      (TiffPage [TiffTag ''Make'' (VStr ''FLIR''), TiffTag ''Model'' (VStr ''XT2''),
                 TiffTag ''GPSTag''
                   (example_gps (sexagesimal 52 30 0) (VStr ''N'') (sexagesimal 13 24 0) (VStr ''E''))])
     = ([], Some (RuntimeError (NotDJIXT2 (VStr ''FLIR'') (VStr ''XT2''))))"
    by (simp add: page_tagconv_it_def page_tag_def raise_def)
  have B: "page_tagconv_it (\<lambda>s. None) (\<lambda>v. v) (example_page [TiffTag ''GPSTag'' example_gps_below])
     = (fst (tags_it (\<lambda>s. None) (tags (example_page [TiffTag ''GPSTag'' example_gps_below]))),
        Some (RuntimeError (GPSAltitudeRef (VInt 1))))"
    by (simp add: page_tagconv_it_def example_page_tag c t raise_def)
  from A B show ?thesis unfolding t by simp
qed

end
